theory Spec2Isabelle
  imports Complex_Main "HOL-Library.Word"
begin

unbundle bit_operations_syntax

section \<open>Data model of the guardian side\<close>

text \<open>
  The types of \<^verbatim>\<open>coralkm-protocol/types.ts\<close> and of the guardian store.  Instants
  (\<^verbatim>\<open>Date\<close> objects and the ISO strings that denote them) are integers: milliseconds
  since the epoch.
\<close>

datatype RequestPolicy = GRANTED | DENIED

record INamespace =
  ns_id :: string
  gateway_did :: string

record ICoralKMGuardianPolicy =
  requesterDid :: string
  status :: RequestPolicy

text \<open>The \<^verbatim>\<open>namespace\<close> field of a stored share: \<^verbatim>\<open>{ id, gateway }\<close>.\<close>

record ShareNamespace =
  sn_id :: string
  sn_gateway :: string

record ICoralKMShare =
  ownerDid :: string
  share_namespace :: ShareNamespace
  updatedAt :: int
  threshold :: int
  share :: string

record ICoralKMRecoveryRequest =
  rr_id :: string
  deviceDid :: string
  rr_namespace :: INamespace
  createdAt :: int
  expiresAt :: int

section \<open>MemoryGuardianStore\<close>

text \<open>
  The three \<^verbatim>\<open>Map\<close>s of the in-memory store.  Every method takes the store and
  returns its result together with the store it leaves.
\<close>

record MemoryGuardianStore =
  guardianPolicies :: "string \<rightharpoonup> ICoralKMGuardianPolicy"
  shares :: "string \<rightharpoonup> ICoralKMShare"
  recoveryRequests :: "string \<rightharpoonup> ICoralKMRecoveryRequest"


text \<open>
  \<^verbatim>\<open>_hashKey\<close> is the SHA-256 digest, in hex, of the string \<^verbatim>\<open>`${gateway}:${nid}`\<close>.
  The digest is taken as collision free, so a key is represented by the string that is
  hashed: two keys are equal exactly when the hashed strings are.
\<close>

definition hashKey :: "string \<Rightarrow> string \<Rightarrow> string" where
  "hashKey gateway nid = gateway @ '':'' @ nid"

definition getGuardianPolicy :: "MemoryGuardianStore \<Rightarrow> string \<Rightarrow> ICoralKMGuardianPolicy option" where
  "getGuardianPolicy st requester = guardianPolicies st requester"


text \<open>
  \<^verbatim>\<open>removeGuardianPolicy\<close> deletes the policy entry, then walks the shares and deletes
  each one whose owner is the requester; it returns whether the policy is gone.
\<close>

definition removeGuardianPolicy :: "MemoryGuardianStore \<Rightarrow> string \<Rightarrow> bool \<times> MemoryGuardianStore" where
  "removeGuardianPolicy st requester =
     (let policies' = (guardianPolicies st)(requester := None);
          shares' = (\<lambda>key. case shares st key of
                       None \<Rightarrow> None
                     | Some s \<Rightarrow> if ownerDid s = requester then None else Some s)
      in (policies' requester = None,
          st\<lparr>guardianPolicies := policies', shares := shares'\<rparr>))"


datatype error =
    DIDCommProtocolError (err_message: string) (err_code: string)
      (err_messageType: "string \<times> string \<times> string") (err_args: "string list option")
  | JSError (js_message: string)


definition getShare :: "MemoryGuardianStore \<Rightarrow> string \<Rightarrow> string \<Rightarrow> ICoralKMShare option" where
  "getShare st gateway nid = shares st (hashKey gateway nid)"



definition getRecoveryRequest :: "MemoryGuardianStore \<Rightarrow> string \<Rightarrow> ICoralKMRecoveryRequest option" where
  "getRecoveryRequest st requestId = recoveryRequests st requestId"

definition deleteRecoveryRequest :: "MemoryGuardianStore \<Rightarrow> string \<Rightarrow> bool \<times> MemoryGuardianStore" where
  "deleteRecoveryRequest st requestId =
     (recoveryRequests st requestId \<noteq> None,
      st\<lparr>recoveryRequests := (recoveryRequests st)(requestId := None)\<rparr>)"

section \<open>Messages and the assertions of didcomm-utils\<close>

text \<open>
  A message type is the triple (piuri, version, type) that \<^verbatim>\<open>getMessageType\<close> parses
  out of the type URI.
\<close>

type_synonym IDIDCommMessageType = "string \<times> string \<times> string"

definition getFullMessageType :: "IDIDCommMessageType \<Rightarrow> string" where
  "getFullMessageType mt = (case mt of (piuri, version, ty) \<Rightarrow> piuri @ ''/'' @ version @ ''/'' @ ty)"

text \<open>
  JavaScript truthiness of an optional string: \<^verbatim>\<open>undefined\<close>, \<^verbatim>\<open>null\<close> and the
  empty string are falsy.
\<close>

definition truthy :: "string option \<Rightarrow> bool" where
  "truthy v = (case v of None \<Rightarrow> False | Some s \<Rightarrow> s \<noteq> [])"

definition assertMessageFieldDefined :: "bool \<Rightarrow> string \<Rightarrow> IDIDCommMessageType \<Rightarrow> error option" where
  "assertMessageFieldDefined value name mt =
     (if \<not> value
      then Some (DIDCommProtocolError
                  ''invalid_argument:  Protocol Message {1} received without {2} set''
                  ''invalid_argument'' mt (Some [getFullMessageType mt, name]))
      else None)"

definition assertRole :: "string \<Rightarrow> string list \<Rightarrow> IDIDCommMessageType \<Rightarrow> error option" where
  "assertRole requiredRole agentRoles mt =
     (if requiredRole \<notin> set agentRoles
      then Some (DIDCommProtocolError
                  ''invalid_role:  Protocol Message {1} received by agent without required role {2}''
                  ''invalid_role'' mt (Some [getFullMessageType mt, requiredRole]))
      else None)"

definition throwUnsupportedMessageType :: "IDIDCommMessageType \<Rightarrow> error" where
  "throwUnsupportedMessageType mt =
     DIDCommProtocolError
       ''unsupported_message_type: Protocol Message {1} of type {2} is not supported''
       ''unsupported_message_type'' mt (Some [getFullMessageType mt, snd (snd mt)])"

text \<open>
  The incoming message (Veramo's \<^verbatim>\<open>Message\<close>): \<^verbatim>\<open>from\<close>, \<^verbatim>\<open>to\<close> and
  \<^verbatim>\<open>threadId\<close> may be missing, and so may the body \<^verbatim>\<open>data\<close> and each of its
  fields.
\<close>

record MessageData =
  d_device_did :: "string option"
  d_namespace :: "INamespace option"
  d_expires_at :: "int option"
  d_response :: "string option"
  d_challenge_id :: "string option"
  d_pthid :: "string option"

record Message =
  m_id :: string
  m_type :: string
  m_from :: "string option"
  m_to :: "string option"
  threadId :: "string option"
  m_data :: "MessageData option"

record IVerificationChallenge =
  ch_id :: string
  ch_type :: string
  instructions :: string

text \<open>The bodies of the messages that the modelled handlers and the engine create.\<close>

datatype Body =
    NoBody
  | ChallengeBody (challenge: IVerificationChallenge) (challenge_pthid: string)
  | ReleaseShareBody (released_share: string) (released_threshold: int) (release_pthid: string)
  | ProblemReportBody (pr_code: string) (pr_comment: "string option")
      (pr_args: "string list option") (pr_escalate_to: "string option")

record IDIDCommMessage =
  dm_id :: string
  dm_type :: string
  dm_from :: "string option"
  dm_to :: "string option list"
  thid :: "string option"
  pthid :: "string option"
  body :: Body

text \<open>
  Modelled from the spec: the constant \<^verbatim>\<open>CORALKM_PROTOCOL_PREFIX\<close> of
  \<^verbatim>\<open>coralkm-constants.ts\<close>, which the spec gives as the prefix of every type URI.
\<close>

definition CORALKM_PROTOCOL_PREFIX :: string where
  "CORALKM_PROTOCOL_PREFIX = ''https://coralstack.com/coralkm/0.1''"

definition GUARDIAN_REMOVE_CONFIRM :: string where
  "GUARDIAN_REMOVE_CONFIRM = CORALKM_PROTOCOL_PREFIX @ ''/guardian-remove-confirm''"


definition GUARDIAN_RELEASE_SHARE :: string where
  "GUARDIAN_RELEASE_SHARE = CORALKM_PROTOCOL_PREFIX @ ''/guardian-release-share''"

section \<open>DCCoralKMProtocolV01: the guardian's handlers\<close>

text \<open>
  The handler object: its roles, its guardian store (absent when none was configured)
  and the transient \<^verbatim>\<open>_guardian_did\<close>.  Each case of \<^verbatim>\<open>handle\<close> below takes
  the identifiers that \<^verbatim>\<open>v4()\<close> draws as arguments and returns what the case
  returns or throws, with the handler it leaves.
\<close>

record DCCoralKMProtocolV01 =
  roles :: "string list"
  guardianStore :: "MemoryGuardianStore option"
  guardian_did :: "string option"

type_synonym handled = "(error + IDIDCommMessage option) \<times> DCCoralKMProtocolV01"

text \<open>The first failing assertion throws; the rest of the case runs only when none does.\<close>

fun first_error :: "error option list \<Rightarrow> error option" where
  "first_error [] = None"
| "first_error (None # es) = first_error es"
| "first_error (Some e # es) = Some e"

definition guardian_not_configured :: "IDIDCommMessageType \<Rightarrow> error" where
  "guardian_not_configured mt =
     DIDCommProtocolError ''Guardian role requires a GuardianStore implementation''
       ''e.guardian_not_configured'' mt (Some [])"

text \<open>
  Case \<^verbatim>\<open>'guardian-verification-challenge-response'\<close>.  Reading a field of a missing
  body is a \<^verbatim>\<open>TypeError\<close>.
\<close>

definition handle_guardian_verification_challenge_response ::
  "string \<Rightarrow> DCCoralKMProtocolV01 \<Rightarrow> IDIDCommMessageType \<Rightarrow> Message \<Rightarrow> handled" where
  "handle_guardian_verification_challenge_response new_id h mt message =
     (case first_error [assertRole ''guardian'' (roles h) mt,
                        assertMessageFieldDefined (truthy (m_from message)) ''from'' mt,
                        assertMessageFieldDefined (truthy (m_to message)) ''to'' mt] of
        Some e \<Rightarrow> (Inl e, h)
      | None \<Rightarrow>
       (case m_data message of
          None \<Rightarrow> (Inl (JSError ''TypeError''), h)
        | Some d \<Rightarrow>
         (case first_error
                 [assertMessageFieldDefined (truthy (d_response d)) ''body.response'' mt,
                  assertMessageFieldDefined (truthy (d_challenge_id d)) ''body.challenge_id'' mt,
                  assertMessageFieldDefined (truthy (d_pthid d)) ''body.pthid'' mt] of
            Some e \<Rightarrow> (Inl e, h)
          | None \<Rightarrow>
           (case guardianStore h of
              None \<Rightarrow> (Inl (guardian_not_configured mt), h)
            | Some st \<Rightarrow>
             (case getRecoveryRequest st (the (d_pthid d)) of
                None \<Rightarrow> (Inr None, h)
              | Some recoveryRequest \<Rightarrow>
                 if the (d_response d) = ''123456''
                 then
                   (case getShare st (gateway_did (rr_namespace recoveryRequest))
                                     (ns_id (rr_namespace recoveryRequest)) of
                      None \<Rightarrow> (Inr None, h)
                    | Some sh \<Rightarrow>
                        (Inr (Some \<lparr>dm_id = new_id, dm_type = GUARDIAN_RELEASE_SHARE,
                                    dm_from = m_to message,
                                    dm_to = [Some (deviceDid recoveryRequest)],
                                    thid = None, pthid = d_pthid d,
                                    body = ReleaseShareBody (share sh) (threshold sh)
                                             (the (d_pthid d))\<rparr>), h))
                 else
                   (Inr None,
                    h\<lparr>guardianStore :=
                        Some (snd (deleteRecoveryRequest st (the (d_pthid d))))\<rparr>))))))"


text \<open>
  Case \<^verbatim>\<open>'guardian-remove'\<close>: the policy and the data of the sender are removed and
  the confirmation is threaded to the remove message.
\<close>

definition handle_guardian_remove ::
  "string \<Rightarrow> DCCoralKMProtocolV01 \<Rightarrow> IDIDCommMessageType \<Rightarrow> Message \<Rightarrow> handled" where
  "handle_guardian_remove new_id h mt message =
     (case first_error [assertRole ''guardian'' (roles h) mt,
                        assertMessageFieldDefined (truthy (m_from message)) ''from'' mt,
                        assertMessageFieldDefined (truthy (m_to message)) ''to'' mt] of
        Some e \<Rightarrow> (Inl e, h)
      | None \<Rightarrow>
       (case guardianStore h of
          None \<Rightarrow> (Inl (guardian_not_configured mt), h)
        | Some st \<Rightarrow>
            (Inr (Some \<lparr>dm_id = new_id, dm_type = GUARDIAN_REMOVE_CONFIRM,
                        dm_from = m_to message, dm_to = [m_from message],
                        thid = Some (m_id message), pthid = None, body = NoBody\<rparr>),
             h\<lparr>guardianStore :=
                 Some (snd (removeGuardianPolicy st (the (m_from message))))\<rparr>)))"


section \<open>DIDCommProtocolMessageHandler: the engine around the protocol handlers\<close>

definition PROBLEM_REPORT :: string where
  "PROBLEM_REPORT = ''https://didcomm.org/report-problem/2.0/problem-report''"

text \<open>\<^verbatim>\<open>DCReportProblemProtocolV2.createMessage\<close>.\<close>

definition createProblemReport ::
  "string \<Rightarrow> string option \<Rightarrow> string option \<Rightarrow> string \<Rightarrow> string \<Rightarrow> string option
     \<Rightarrow> string list option \<Rightarrow> string option \<Rightarrow> IDIDCommMessage" where
  "createProblemReport new_id from to parent code comment args escalate_to =
     \<lparr>dm_id = new_id, dm_type = PROBLEM_REPORT, dm_from = from, dm_to = [to],
      thid = None, pthid = Some parent,
      body = ProblemReportBody code comment args escalate_to\<rparr>"

text \<open>
  The metadata entry \<^verbatim>\<open>ReturnRouteResponse\<close> that carries a reply back to the
  transport.
\<close>

datatype MetaData = ReturnRouteResponse (route_id: string) (route_message: IDIDCommMessage)

text \<open>\<^verbatim>\<open>a || b\<close> on an optional string and a string.\<close>

definition js_or :: "string option \<Rightarrow> string \<Rightarrow> string" where
  "js_or a b = (if truthy a then the a else b)"

text \<open>
  \<^verbatim>\<open>DIDCommProtocolMessageHandler.handle\<close>.  \<^verbatim>\<open>registered\<close> are the keys
  (piuri/version) of the protocols registered with the agent; \<^verbatim>\<open>outcome\<close> is what
  the \<^verbatim>\<open>try\<close> block produced up to the protocol's \<^verbatim>\<open>handle\<close>: its reply, or
  what was thrown.  The result is the metadata added to the message, or the error thrown
  out of the \<^verbatim>\<open>catch\<close> block when no problem-report protocol is registered.
\<close>

definition engine_handle ::
  "string list \<Rightarrow> string \<Rightarrow> Message \<Rightarrow> error + IDIDCommMessage option \<Rightarrow> error + MetaData list" where
  "engine_handle registered new_id message outcome =
     (case outcome of
        Inr None \<Rightarrow> Inr []
      | Inr (Some response) \<Rightarrow> Inr [ReturnRouteResponse (dm_id response) response]
      | Inl err \<Rightarrow>
          if ''https://didcomm.org/report-problem/2.0'' \<notin> set registered
          then Inl (JSError (''No protocol handler found for message type: '' @ PROBLEM_REPORT))
          else
            let problemReportMessage =
              (case err of
                 DIDCommProtocolError msg code mt args \<Rightarrow>
                   createProblemReport new_id (m_to message) (m_from message)
                     (js_or (threadId message) (m_id message)) code (Some msg) args None
               | JSError msg \<Rightarrow>
                   createProblemReport new_id (m_to message) (m_from message)
                     (js_or (threadId message) (m_id message)) ''internal_error'' (Some msg)
                     None None)
            in Inr [ReturnRouteResponse (dm_id problemReportMessage) problemReportMessage])"

section \<open>Wallet: share distribution and the recovery coordinator\<close>

record IChannel =
  channel_id :: string
  is_guardian :: bool

record Wallet =
  gatewayDID :: string
  mediator_id :: string
  routing_id :: "string option"
  wallet_namespace :: "INamespace option"
  walletKey :: "string option"
  channels :: "IChannel list"

text \<open>
  The arguments of one \<^verbatim>\<open>GUARDIAN_SHARE_UPDATE\<close>; \<^verbatim>\<open>su_share\<close> is
  \<^verbatim>\<open>dekShares[index]\<close>, which JavaScript leaves undefined beyond the array.
\<close>

record GuardianShareUpdateArgs =
  su_from :: "string option"
  su_to :: string
  su_namespace :: "INamespace option"
  su_threshold :: nat
  su_share :: "string option"

definition nth_opt :: "'a list \<Rightarrow> nat \<Rightarrow> 'a option" where
  "nth_opt xs i = (if i < length xs then Some (xs ! i) else None)"

text \<open>The \<^verbatim>\<open>reduce\<close> that counts the channels whose \<^verbatim>\<open>is_guardian\<close> is set.\<close>

definition totalShares :: "IChannel list \<Rightarrow> nat" where
  "totalShares chans = fold (\<lambda>channel acc. if is_guardian channel then acc + 1 else acc) chans 0"

text \<open>\<^verbatim>\<open>Math.max(2, Math.ceil(totalShares / 2))\<close>.\<close>

definition resplit_threshold :: "nat \<Rightarrow> nat" where
  "resplit_threshold n = max 2 (nat \<lceil>real n / 2\<rceil>)"

text \<open>
  The \<^verbatim>\<open>forEach\<close> over all channels, with the position of the channel among all
  channels as \<^verbatim>\<open>index\<close>.
\<close>

fun shareUpdates :: "Wallet \<Rightarrow> nat \<Rightarrow> string list \<Rightarrow> nat \<Rightarrow> IChannel list \<Rightarrow> GuardianShareUpdateArgs list" where
  "shareUpdates w thr dekShares index [] = []"
| "shareUpdates w thr dekShares index (channel # rest) =
     (if is_guardian channel
      then [\<lparr>su_from = (if channel_id channel = gatewayDID w then Some (mediator_id w)
                         else routing_id w),
             su_to = channel_id channel,
             su_namespace = wallet_namespace w,
             su_threshold = thr,
             su_share = nth_opt dekShares index\<rparr>]
      else [])
     @ shareUpdates w thr dekShares (index + 1) rest"

text \<open>
  \<^verbatim>\<open>_updateGuardianShares\<close>.  \<^verbatim>\<open>splitDEK\<close> is
  \<^verbatim>\<open>EncryptionManager.splitDEK\<close> over the Shamir library (no result when it
  throws).  The outcome records the request made to \<^verbatim>\<open>splitDEK\<close> (number of
  shares, threshold), if any, and the share updates sent.
\<close>

record Resplit =
  split_request :: "(nat \<times> nat) option"
  sent :: "GuardianShareUpdateArgs list"

definition updateGuardianShares ::
  "(string \<Rightarrow> nat \<Rightarrow> nat \<Rightarrow> string list option) \<Rightarrow> Wallet \<Rightarrow> Resplit" where
  "updateGuardianShares splitDEK w =
     (let total = totalShares (channels w)
      in if total < 2 then \<lparr>split_request = None, sent = []\<rparr>
         else
           let thr = resplit_threshold total
           in (case walletKey w of
                 None \<Rightarrow> \<lparr>split_request = None, sent = []\<rparr>
               | Some key \<Rightarrow>
                  (case splitDEK key total thr of
                     None \<Rightarrow> \<lparr>split_request = Some (total, thr), sent = []\<rparr>
                   | Some dekShares \<Rightarrow>
                       \<lparr>split_request = Some (total, thr),
                        sent = shareUpdates w thr dekShares 0 (channels w)\<rparr>)))"

text \<open>
  The recovery coordinator: \<^verbatim>\<open>_currentRecovery\<close> and the branch of
  \<^verbatim>\<open>_onMessage\<close> for a received \<^verbatim>\<open>GUARDIAN_RELEASE_SHARE\<close>, whose decoded
  payload carries the share and the threshold.
\<close>

record Recovery =
  recovery_id :: string
  recovery_namespace :: INamespace
  recovery_shares :: "string list"

record ReleasedShare =
  rs_from :: "string option"
  rs_share :: string
  rs_threshold :: int

text \<open>
  \<^verbatim>\<open>Restoring r\<close>: \<^verbatim>\<open>_restoreWallet\<close> is entered, and combines the shares
  of \<^verbatim>\<open>r\<close>.  \<^verbatim>\<open>Collecting r\<close>: the recovery goes on with \<^verbatim>\<open>r\<close>.
\<close>

datatype ReleaseOutcome = NoRecovery | Collecting Recovery | Restoring Recovery

definition onReleaseShare :: "Recovery option \<Rightarrow> ReleasedShare \<Rightarrow> ReleaseOutcome" where
  "onReleaseShare current m =
     (case current of
        None \<Rightarrow> NoRecovery
      | Some r \<Rightarrow>
          let r' = r\<lparr>recovery_shares := recovery_shares r @ [rs_share m]\<rparr>
          in if int (length (recovery_shares r')) \<ge> rs_threshold m
             then Restoring r' else Collecting r')"

text \<open>The messages of one recovery in the order received, up to the restore.\<close>

fun receiveShares :: "Recovery \<Rightarrow> ReleasedShare list \<Rightarrow> ReleaseOutcome" where
  "receiveShares r [] = Collecting r"
| "receiveShares r (m # ms) =
     (case onReleaseShare (Some r) m of
        Collecting r' \<Rightarrow> receiveShares r' ms
      | outcome \<Rightarrow> outcome)"

text \<open>The distinct senders among received messages.\<close>

definition distinct_guardians :: "ReleasedShare list \<Rightarrow> nat" where
  "distinct_guardians ms = length (remdups (map rs_from ms))"


section \<open>DCReportProblemProtocolV2: comment processing\<close>

text \<open>
  \<^verbatim>\<open>_processComment\<close> runs \<^verbatim>\<open>comment.replace(/\{(\d+)\}/g, callback)\<close>.
  \<^verbatim>\<open>match_placeholder\<close> matches the regular expression at the head of a string and
  returns the digits captured and the text after the match; \<^verbatim>\<open>\d+\<close> is greedy,
  and giving digits back never helps the match, since a digit is not a closing brace.
\<close>

definition is_digit :: "char \<Rightarrow> bool" where
  "is_digit c = (c \<in> set ''0123456789'')"

definition match_placeholder :: "string \<Rightarrow> (string \<times> string) option" where
  "match_placeholder s =
     (case s of
        [] \<Rightarrow> None
      | c # cs \<Rightarrow>
          if c \<noteq> CHR ''{'' then None
          else (case dropWhile is_digit cs of
                  [] \<Rightarrow> None
                | c' # rest \<Rightarrow>
                    if takeWhile is_digit cs \<noteq> [] \<and> c' = CHR ''}''
                    then Some (takeWhile is_digit cs, rest) else None))"

text \<open>
  The global replace: scan from the left; where the expression matches, emit what the
  callback returns for the captured digits and go on after the match; elsewhere copy one
  character.
\<close>

function replace_placeholders :: "(string \<Rightarrow> string) \<Rightarrow> string \<Rightarrow> string" where
  "replace_placeholders f [] = []"
| "replace_placeholders f (c # cs) =
     (case match_placeholder (c # cs) of
        Some (index, rest) \<Rightarrow> f index @ replace_placeholders f rest
      | None \<Rightarrow> c # replace_placeholders f cs)"
  by pat_completeness auto
termination
proof (relation "measure (\<lambda>(f, s). length s)")
  show "wf (measure (\<lambda>(f :: string \<Rightarrow> string, s :: string). length s))" by simp
next
  fix f :: "string \<Rightarrow> string" and c :: char and cs x y :: string and x2
  assume "match_placeholder (c # cs) = Some x2" and "(x, y) = x2"
  then obtain c' where "dropWhile is_digit cs = c' # y"
    by (auto simp: match_placeholder_def split: if_splits list.splits)
  then have "length y < length (dropWhile is_digit cs)" by simp
  also have "\<dots> \<le> length cs" by (rule length_dropWhile_le)
  finally have "length y < length (c # cs)" by simp
  then show "((f, y), (f, c # cs)) \<in> measure (\<lambda>(f, s). length s)" by simp
next
  fix f :: "string \<Rightarrow> string" and c :: char and cs :: string
  show "((f, cs), (f, c # cs)) \<in> measure (\<lambda>(f, s). length s)" by simp
qed

text \<open>
  \<^verbatim>\<open>parseInt(index, 10)\<close> on a string of digits.  JavaScript rounds a value
  beyond \<open>2\<^sup>5\<^sup>3\<close>; such an index is beyond every array either way.
\<close>

definition digit_value :: "char \<Rightarrow> nat" where
  "digit_value c = of_char c - 48"

definition parseInt :: "string \<Rightarrow> nat" where
  "parseInt ds = fold (\<lambda>c n. 10 * n + digit_value c) ds 0"

definition processComment :: "string \<Rightarrow> string list option \<Rightarrow> string" where
  "processComment comment args =
     (case args of
        None \<Rightarrow> comment
      | Some as \<Rightarrow>
          if length as = 0 then comment
          else replace_placeholders
                 (\<lambda>index. let i = int (parseInt index) - 1
                           in if 0 \<le> i \<and> i < int (length as) then as ! nat i
                              else ''{'' @ index @ ''}'')
                 comment)"

text \<open>
  The decimal numeral of a number, as the specification writes the index of a
  placeholder.
\<close>

fun decimal :: "nat \<Rightarrow> string" where
  "decimal n =
     (if n < 10 then [''0123456789'' ! n]
      else decimal (n div 10) @ [''0123456789'' ! (n mod 10)])"

section \<open>EncryptionManager: encryption with associated data\<close>

text \<open>
  Bytes are 8-bit words (\<^verbatim>\<open>Uint8Array\<close>).  A JavaScript string is represented by its
  UTF-8 encoding, one \<^typ>\<open>char\<close> for each byte, so \<^verbatim>\<open>TextEncoder.encode\<close> and
  \<^verbatim>\<open>TextDecoder.decode\<close> pass between characters and bytes.
\<close>

type_synonym bytes = "8 word list"

definition TextEncoder_encode :: "string \<Rightarrow> bytes" where
  "TextEncoder_encode s = map (\<lambda>c. of_nat (of_char c)) s"

definition TextDecoder_decode :: "bytes \<Rightarrow> string" where
  "TextDecoder_decode bs = map (\<lambda>b. char_of (unat b)) bs"

subsection \<open>The platform's base64\<close>

text \<open>
  \<^verbatim>\<open>btoa\<close> and \<^verbatim>\<open>atob\<close> are functions of the platform; they are written here as
  the platform specifies them (RFC 4648 for the encoding; the forgiving decoding of the
  HTML standard, which accepts a missing padding).  \<^verbatim>\<open>sextets\<close> cuts byte values into
  6-bit groups and \<^verbatim>\<open>octets\<close> puts 6-bit groups together again.
\<close>

definition base64_alphabet :: string where
  "base64_alphabet = ''ABCDEFGHIJKLMNOPQRSTUVWXYZabcdefghijklmnopqrstuvwxyz0123456789+/''"

fun sextets :: "nat list \<Rightarrow> nat list" where
  "sextets [] = []"
| "sextets [a] = [a div 4, (a mod 4) * 16]"
| "sextets [a, b] = [a div 4, (a mod 4) * 16 + b div 16, (b mod 16) * 4]"
| "sextets (a # b # c # rest) =
     [a div 4, (a mod 4) * 16 + b div 16, (b mod 16) * 4 + c div 64, c mod 64] @ sextets rest"

fun octets :: "nat list \<Rightarrow> nat list" where
  "octets (s1 # s2 # s3 # s4 # rest) =
     [s1 * 4 + s2 div 16, (s2 mod 16) * 16 + s3 div 4, (s3 mod 4) * 64 + s4] @ octets rest"
| "octets [s1, s2, s3] = [s1 * 4 + s2 div 16, (s2 mod 16) * 16 + s3 div 4]"
| "octets [s1, s2] = [s1 * 4 + s2 div 16]"
| "octets _ = []"

definition btoa :: "bytes \<Rightarrow> string" where
  "btoa bs = map (\<lambda>s. base64_alphabet ! s) (sextets (map unat bs))
             @ replicate ((3 - length bs mod 3) mod 3) CHR ''=''"

definition base64_index :: "char \<Rightarrow> nat option" where
  "base64_index c = map_of (zip base64_alphabet [0..<64]) c"

definition is_ascii_whitespace :: "char \<Rightarrow> bool" where
  "is_ascii_whitespace c = (c \<in> {CHR 0x09, CHR 0x0A, CHR 0x0C, CHR 0x0D, CHR 0x20})"

definition ends_with :: "string \<Rightarrow> string \<Rightarrow> bool" where
  "ends_with suffix s = (length suffix \<le> length s \<and> drop (length s - length suffix) s = suffix)"

definition atob :: "string \<Rightarrow> bytes option" where
  "atob data =
     (let d = filter (\<lambda>c. \<not> is_ascii_whitespace c) data;
          d' = (if length d mod 4 = 0
                then (if ends_with ''=='' d then take (length d - 2) d
                      else if ends_with ''='' d then take (length d - 1) d
                      else d)
                else d)
      in if length d' mod 4 = 1 \<or> (\<exists>c \<in> set d'. base64_index c = None) then None
         else Some (map of_nat (octets (map (\<lambda>c. the (base64_index c)) d'))))"

subsection \<open>The helpers of EncryptionManager\<close>

text \<open>\<^verbatim>\<open>replace(/=+$/, '')\<close>.\<close>

definition strip_padding :: "string \<Rightarrow> string" where
  "strip_padding s = rev (dropWhile (\<lambda>c. c = CHR ''='') (rev s))"

definition replace_char :: "char \<Rightarrow> char \<Rightarrow> string \<Rightarrow> string" where
  "replace_char old new s = map (\<lambda>c. if c = old then new else c) s"

definition toBase64Url :: "bytes \<Rightarrow> string" where
  "toBase64Url bs =
     strip_padding (replace_char CHR ''/'' CHR ''_'' (replace_char CHR ''+'' CHR ''-'' (btoa bs)))"

text \<open>No result: \<^verbatim>\<open>atob\<close> throws \<^verbatim>\<open>InvalidCharacterError\<close>.\<close>

definition fromBase64Url :: "string \<Rightarrow> bytes option" where
  "fromBase64Url b64url =
     (let b64 = replace_char CHR ''_'' CHR ''/'' (replace_char CHR ''-'' CHR ''+'' b64url);
          pad = (if length b64 mod 4 \<noteq> 0 then 4 - length b64 mod 4 else 0);
          base64 = b64 @ replicate pad CHR ''=''
      in atob base64)"

text \<open>
  The comparison in constant time: the differences of all positions are accumulated with
  \<^verbatim>\<open>|=\<close> and \<^verbatim>\<open>^\<close>.
\<close>

definition equals :: "bytes \<Rightarrow> bytes \<Rightarrow> bool" where
  "equals a b =
     (if length a \<noteq> length b then False
      else fold (\<lambda>(x, y) diff. diff OR (x XOR y)) (zip a b) 0 = 0)"

subsection \<open>encrypt and decrypt\<close>

text \<open>
  What EncryptionManager takes from the platform beyond base64: AES-GCM of
  \<^verbatim>\<open>crypto.subtle\<close> with the optional \<^verbatim>\<open>additionalData\<close> (decryption has no result
  when it throws), and JSON.  \<^verbatim>\<open>JSON_stringify_sorted\<close> is
  \<^verbatim>\<open>JSON.stringify(aad, Object.keys(aad).sort())\<close>.
\<close>

record ('k, 'j) platform =
  aes_gcm_encrypt :: "'k \<Rightarrow> bytes \<Rightarrow> bytes option \<Rightarrow> bytes \<Rightarrow> bytes"
  aes_gcm_decrypt :: "'k \<Rightarrow> bytes \<Rightarrow> bytes option \<Rightarrow> bytes \<Rightarrow> bytes option"
  JSON_stringify :: "'j \<Rightarrow> string"
  JSON_stringify_sorted :: "'j \<Rightarrow> string"
  JSON_parse :: "string \<Rightarrow> 'j option"

text \<open>The data to encrypt and the associated data: a string or an object.\<close>

datatype 'j plaintext = Text string | Json 'j

datatype 'j aad = AadString string | AadObject 'j

definition aadBytes :: "('k, 'j) platform \<Rightarrow> 'j aad \<Rightarrow> bytes" where
  "aadBytes P a =
     (case a of
        AadString s \<Rightarrow> TextEncoder_encode s
      | AadObject obj \<Rightarrow> TextEncoder_encode (JSON_stringify_sorted P obj))"

text \<open>
  \<^verbatim>\<open>aad ? EncryptionManager.aadBytes(aad) : undefined\<close>: a missing argument and the
  empty string are falsy, an object is truthy.
\<close>

definition providedAAD :: "('k, 'j) platform \<Rightarrow> 'j aad option \<Rightarrow> bytes option" where
  "providedAAD P a =
     (case a of
        None \<Rightarrow> None
      | Some (AadString s) \<Rightarrow> if s = [] then None else Some (aadBytes P (AadString s))
      | Some (AadObject obj) \<Rightarrow> Some (aadBytes P (AadObject obj)))"

text \<open>
  The payload \<^verbatim>\<open>{ alg, v, iv, ct, aad? }\<close>.  \<^verbatim>\<open>encrypt\<close> returns its JSON text and
  \<^verbatim>\<open>decrypt\<close> parses that text first; the record stands for both.
\<close>

record Envelope =
  alg :: string
  v :: nat
  iv :: string
  ct :: string
  env_aad :: "string option"

text \<open>\<^verbatim>\<open>encrypt\<close>; \<^verbatim>\<open>iv_bytes\<close> are the twelve random bytes drawn.\<close>

definition encrypt ::
  "('k, 'j) platform \<Rightarrow> 'k \<Rightarrow> bytes \<Rightarrow> 'j plaintext \<Rightarrow> 'j aad option \<Rightarrow> Envelope" where
  "encrypt P key iv_bytes data a =
     (let json = (case data of Text s \<Rightarrow> s | Json obj \<Rightarrow> JSON_stringify P obj);
          pt = TextEncoder_encode json;
          aad_bytes = providedAAD P a;
          ciphertext = aes_gcm_encrypt P key iv_bytes aad_bytes pt
      in \<lparr>alg = ''AES-GCM'', v = 1, iv = toBase64Url iv_bytes, ct = toBase64Url ciphertext,
          env_aad = map_option toBase64Url aad_bytes\<rparr>)"

datatype decrypt_error =
    UnsupportedAlg
  | InvalidCharacterError
  | AadPresenceMismatch
  | AadContextMismatch
  | OperationError

text \<open>
  \<^verbatim>\<open>decrypt\<close>.  \<^verbatim>\<open>AadPresenceMismatch\<close> is the error
  \<^verbatim>\<open>'AAD mismatch: encrypt/decrypt AAD presence differs'\<close> and
  \<^verbatim>\<open>AadContextMismatch\<close> is \<^verbatim>\<open>'AAD mismatch: different context supplied'\<close>.
\<close>

definition decrypt ::
  "('k, 'j) platform \<Rightarrow> 'k \<Rightarrow> Envelope \<Rightarrow> 'j aad option \<Rightarrow> decrypt_error + 'j plaintext" where
  "decrypt P key encrypted a =
     (if alg encrypted \<noteq> ''AES-GCM'' then Inl UnsupportedAlg
      else
       (case fromBase64Url (iv encrypted) of
          None \<Rightarrow> Inl InvalidCharacterError
        | Some ivBytes \<Rightarrow>
         (case fromBase64Url (ct encrypted) of
            None \<Rightarrow> Inl InvalidCharacterError
          | Some ctBytes \<Rightarrow>
           (case (if truthy (env_aad encrypted)
                  then map_option Some (fromBase64Url (the (env_aad encrypted)))
                  else Some None) of
              None \<Rightarrow> Inl InvalidCharacterError
            | Some encodedAAD \<Rightarrow>
               if (providedAAD P a \<noteq> None \<and> encodedAAD = None)
                  \<or> (providedAAD P a = None \<and> encodedAAD \<noteq> None)
               then Inl AadPresenceMismatch
               else if providedAAD P a \<noteq> None \<and> encodedAAD \<noteq> None
                       \<and> \<not> equals (the (providedAAD P a)) (the encodedAAD)
               then Inl AadContextMismatch
               else
                 (case aes_gcm_decrypt P key ivBytes (providedAAD P a) ctBytes of
                    None \<Rightarrow> Inl OperationError
                  | Some pt \<Rightarrow>
                      let text = TextDecoder_decode pt
                      in (case JSON_parse P text of
                            Some obj \<Rightarrow> Inr (Json obj)
                          | None \<Rightarrow> Inr (Text text)))))))"

section \<open>Concrete scenarios\<close>

text \<open>
  A guardian \<^verbatim>\<open>did:peer:GA\<close> that holds a share of Alice's namespace \<^verbatim>\<open>NS1\<close> and
  a recovery request \<^verbatim>\<open>R1\<close> for it that expired at instant 1000; the clock reads 2000.
\<close>

definition ex_share :: ICoralKMShare where
  "ex_share = \<lparr>ownerDid = ''did:peer:alice'',
      share_namespace = \<lparr>sn_id = ''NS1'', sn_gateway = ''did:web:gw''\<rparr>,
      updatedAt = 500, threshold = 2, share = ''c2hhcmUtQQ''\<rparr>"

definition ex_request :: ICoralKMRecoveryRequest where
  "ex_request = \<lparr>rr_id = ''R1'', deviceDid = ''did:peer:device'',
      rr_namespace = \<lparr>ns_id = ''NS1'', gateway_did = ''did:web:gw''\<rparr>,
      createdAt = 900, expiresAt = 1000\<rparr>"

definition ex_now :: int where
  "ex_now = 2000"

definition ex_store :: MemoryGuardianStore where
  "ex_store =
     \<lparr>guardianPolicies =
        [''did:peer:alice'' \<mapsto> \<lparr>requesterDid = ''did:peer:alice'', status = GRANTED\<rparr>],
      shares = [hashKey ''did:web:gw'' ''NS1'' \<mapsto> ex_share],
      recoveryRequests = [''R1'' \<mapsto> ex_request]\<rparr>"

definition ex_guardian :: DCCoralKMProtocolV01 where
  "ex_guardian = \<lparr>roles = [''guardian''], guardianStore = Some ex_store,
      guardian_did = Some ''did:peer:GA''\<rparr>"

definition coralkm_type :: "string \<Rightarrow> IDIDCommMessageType" where
  "coralkm_type ty = (''https://coralstack.com/coralkm'', ''0.1'', ty)"

definition no_data :: MessageData where
  "no_data = \<lparr>d_device_did = None, d_namespace = None, d_expires_at = None,
      d_response = None, d_challenge_id = None, d_pthid = None\<rparr>"

text \<open>The device's answer to the guardian's challenge, with the code it carries.\<close>

definition ex_response :: "string \<Rightarrow> Message" where
  "ex_response code =
     \<lparr>m_id = ''M7'',
      m_type = getFullMessageType (coralkm_type ''guardian-verification-challenge-response''),
      m_from = Some ''did:peer:device'', m_to = Some ''did:peer:GA'', threadId = Some ''C1'',
      m_data = Some (no_data\<lparr>d_response := Some code, d_challenge_id := Some ''C1'',
                             d_pthid := Some ''R1''\<rparr>)\<rparr>"

text \<open>Alice removes the guardian.\<close>

definition ex_remove :: Message where
  "ex_remove =
     \<lparr>m_id = ''M9'', m_type = getFullMessageType (coralkm_type ''guardian-remove''),
      m_from = Some ''did:peer:alice'', m_to = Some ''did:peer:GA'', threadId = None,
      m_data = None\<rparr>"

text \<open>A recovery request for a namespace, as the gateway broadcasts it.\<close>

definition ex_recovery_request :: "string \<Rightarrow> string \<Rightarrow> Message" where
  "ex_recovery_request gateway nid =
     \<lparr>m_id = ''R2'', m_type = getFullMessageType (coralkm_type ''namespace-recovery-request''),
      m_from = Some ''did:peer:device'', m_to = Some ''did:peer:GA'', threadId = None,
      m_data = Some (no_data\<lparr>d_device_did := Some ''did:peer:device'',
                             d_namespace := Some \<lparr>ns_id = nid, gateway_did = gateway\<rparr>,
                             d_expires_at := Some 90000\<rparr>)\<rparr>"


text \<open>
  A message of an unsupported type whose thread id is present and empty, received by an
  agent with the default protocols registered.
\<close>

definition ex_offender :: Message where
  "ex_offender =
     \<lparr>m_id = ''M1'', m_type = getFullMessageType (coralkm_type ''namespace-audit''),
      m_from = Some ''did:peer:alice'', m_to = Some ''did:peer:GA'', threadId = Some '''',
      m_data = None\<rparr>"

definition ex_registered :: "string list" where
  "ex_registered = [''https://didcomm.org/trust-ping/2.0'',
                    ''https://didcomm.org/discover-features/2.0'',
                    ''https://didcomm.org/report-problem/2.0'',
                    ''https://coralstack.com/coralkm/0.1'']"

text \<open>
  Alice's wallet: the gateway's channel comes first and is not a guardian; the guardians
  \<^verbatim>\<open>GA\<close> and \<^verbatim>\<open>GB\<close> follow.  \<^verbatim>\<open>ex_splitDEK\<close> stands in for the Shamir split:
  it returns as many pairwise distinct shares as requested.
\<close>

definition ex_wallet :: Wallet where
  "ex_wallet =
     \<lparr>gatewayDID = ''did:web:gw'', mediator_id = ''did:peer:alice-mediator'',
      routing_id = Some ''did:peer:alice'',
      wallet_namespace = Some \<lparr>ns_id = ''NS1'', gateway_did = ''did:web:gw''\<rparr>,
      walletKey = Some ''DEK'',
      channels = [\<lparr>channel_id = ''did:web:gw'', is_guardian = False\<rparr>,
                  \<lparr>channel_id = ''did:peer:GA'', is_guardian = True\<rparr>,
                  \<lparr>channel_id = ''did:peer:GB'', is_guardian = True\<rparr>]\<rparr>"

definition ex_splitDEK :: "string \<Rightarrow> nat \<Rightarrow> nat \<Rightarrow> string list option" where
  "ex_splitDEK key numberOfShares thr =
     Some (map (\<lambda>i. key @ ''-share-'' @ replicate (Suc i) CHR ''I'') [0..<numberOfShares])"

text \<open>
  A recovery of \<^verbatim>\<open>NS1\<close> just started, and the share that a guardian releases for
  it, with threshold 2.
\<close>

definition ex_recovery :: Recovery where
  "ex_recovery = \<lparr>recovery_id = ''R1'',
      recovery_namespace = \<lparr>ns_id = ''NS1'', gateway_did = ''did:web:gw''\<rparr>,
      recovery_shares = []\<rparr>"

definition ex_release :: "string \<Rightarrow> string \<Rightarrow> ReleasedShare" where
  "ex_release guardian sh = \<lparr>rs_from = Some guardian, rs_share = sh, rs_threshold = 2\<rparr>"







section \<open>The verification response of a device\<close>

lemmas scenario_defs = ex_share_def ex_request_def ex_store_def ex_guardian_def
  coralkm_type_def no_data_def ex_response_def ex_remove_def ex_recovery_request_def ex_now_def



lemmas handler_eval_defs = handle_guardian_verification_challenge_response_def
  assertRole_def assertMessageFieldDefined_def truthy_def getRecoveryRequest_def getShare_def
  deleteRecoveryRequest_def hashKey_def



text \<open>
  C4 at its failing input: the verification succeeds, the share is released, and the
  handler and its store are returned as they were, so the request \<^verbatim>\<open>R1\<close> is
  still stored.
\<close>

theorem successful_verification_keeps_request:
  "handle_guardian_verification_challenge_response ''M8'' ex_guardian
      (coralkm_type ''guardian-verification-challenge-response'') (ex_response ''123456'')
   = (Inr (Some \<lparr>dm_id = ''M8'', dm_type = GUARDIAN_RELEASE_SHARE,
                 dm_from = Some ''did:peer:GA'', dm_to = [Some ''did:peer:device''],
                 thid = None, pthid = Some ''R1'',
                 body = ReleaseShareBody ''c2hhcmUtQQ'' 2 ''R1''\<rparr>), ex_guardian)
   \<and> getRecoveryRequest (the (guardianStore ex_guardian)) ''R1'' = Some ex_request"
  by (simp add: handler_eval_defs scenario_defs)

section \<open>Removing a guardian\<close>

lemma guardian_remove_accepted:
  assumes "''guardian'' \<in> set (roles h)" "m_from message = Some sender" "sender \<noteq> []"
    and "truthy (m_to message)" "guardianStore h = Some st"
  shows "handle_guardian_remove new_id h mt message =
     (Inr (Some \<lparr>dm_id = new_id, dm_type = GUARDIAN_REMOVE_CONFIRM,
                 dm_from = m_to message, dm_to = [Some sender],
                 thid = Some (m_id message), pthid = None, body = NoBody\<rparr>),
      h\<lparr>guardianStore := Some (snd (removeGuardianPolicy st sender))\<rparr>)"
  using assms
  by (simp add: handle_guardian_remove_def assertRole_def assertMessageFieldDefined_def truthy_def)

lemma removeGuardianPolicy_policy:
  "getGuardianPolicy (snd (removeGuardianPolicy st sender)) d
     = (if d = sender then None else getGuardianPolicy st d)"
  by (simp add: removeGuardianPolicy_def getGuardianPolicy_def Let_def)

lemma removeGuardianPolicy_shares:
  "shares (snd (removeGuardianPolicy st sender)) k
     = (case shares st k of
          None \<Rightarrow> None
        | Some s \<Rightarrow> if ownerDid s = sender then None else Some s)"
  by (simp add: removeGuardianPolicy_def Let_def)

lemma removeGuardianPolicy_requests:
  "recoveryRequests (snd (removeGuardianPolicy st sender)) = recoveryRequests st"
  by (simp add: removeGuardianPolicy_def Let_def)

text \<open>
  C7, as the code has it: a \<^verbatim>\<open>GUARDIAN_REMOVE\<close> that passes validation is answered
  with \<^verbatim>\<open>GUARDIAN_REMOVE_CONFIRM\<close> whose \<^verbatim>\<open>thid\<close> is the id of the remove
  message, and the store it leaves has no policy entry for the sender (the entry is
  deleted, not set to \<^verbatim>\<open>DENIED\<close>) and no share owned by the sender; the policies of
  other requesters, the shares of other owners and the recovery requests are as before.
\<close>

theorem guardian_remove_deletes_policy_and_shares:
  assumes "''guardian'' \<in> set (roles h)" "m_from message = Some sender" "sender \<noteq> []"
    and "truthy (m_to message)" "guardianStore h = Some st"
  shows "handle_guardian_remove new_id h mt message =
           (Inr (Some \<lparr>dm_id = new_id, dm_type = GUARDIAN_REMOVE_CONFIRM,
                       dm_from = m_to message, dm_to = [Some sender],
                       thid = Some (m_id message), pthid = None, body = NoBody\<rparr>),
            h\<lparr>guardianStore := Some (snd (removeGuardianPolicy st sender))\<rparr>)
       \<and> getGuardianPolicy (snd (removeGuardianPolicy st sender)) sender = None
       \<and> (\<forall>k s. shares (snd (removeGuardianPolicy st sender)) k = Some s
                 \<longrightarrow> ownerDid s \<noteq> sender \<and> shares st k = Some s)
       \<and> (\<forall>k s. shares st k = Some s \<and> ownerDid s \<noteq> sender
                 \<longrightarrow> shares (snd (removeGuardianPolicy st sender)) k = Some s)
       \<and> (\<forall>d. d \<noteq> sender
               \<longrightarrow> getGuardianPolicy (snd (removeGuardianPolicy st sender)) d
                     = getGuardianPolicy st d)
       \<and> recoveryRequests (snd (removeGuardianPolicy st sender)) = recoveryRequests st"
proof (intro conjI allI impI)
  show "handle_guardian_remove new_id h mt message =
           (Inr (Some \<lparr>dm_id = new_id, dm_type = GUARDIAN_REMOVE_CONFIRM,
                       dm_from = m_to message, dm_to = [Some sender],
                       thid = Some (m_id message), pthid = None, body = NoBody\<rparr>),
            h\<lparr>guardianStore := Some (snd (removeGuardianPolicy st sender))\<rparr>)"
    by (rule guardian_remove_accepted [OF assms])
next
  show "getGuardianPolicy (snd (removeGuardianPolicy st sender)) sender = None"
    by (simp add: removeGuardianPolicy_policy)
next
  fix k s assume "shares (snd (removeGuardianPolicy st sender)) k = Some s"
  then show "ownerDid s \<noteq> sender" "shares st k = Some s"
    by (simp_all add: removeGuardianPolicy_shares split: option.splits if_splits)
next
  fix k s assume "shares st k = Some s \<and> ownerDid s \<noteq> sender"
  then show "shares (snd (removeGuardianPolicy st sender)) k = Some s"
    by (simp add: removeGuardianPolicy_shares)
next
  fix d assume "d \<noteq> sender"
  then show "getGuardianPolicy (snd (removeGuardianPolicy st sender)) d
      = getGuardianPolicy st d"
    by (simp add: removeGuardianPolicy_policy)
next
  show "recoveryRequests (snd (removeGuardianPolicy st sender)) = recoveryRequests st"
    by (rule removeGuardianPolicy_requests)
qed

theorem guardian_remove_deletes_policy_and_shares_witness:
  "handle_guardian_remove ''M10'' ex_guardian (coralkm_type ''guardian-remove'') ex_remove =
     (Inr (Some \<lparr>dm_id = ''M10'', dm_type = GUARDIAN_REMOVE_CONFIRM,
                 dm_from = Some ''did:peer:GA'', dm_to = [Some ''did:peer:alice''],
                 thid = Some ''M9'', pthid = None, body = NoBody\<rparr>),
      ex_guardian\<lparr>guardianStore :=
        Some (snd (removeGuardianPolicy ex_store ''did:peer:alice''))\<rparr>)
   \<and> getShare (snd (removeGuardianPolicy ex_store ''did:peer:alice'')) ''did:web:gw'' ''NS1''
       = None"
proof -
  have valid: "''guardian'' \<in> set (roles ex_guardian)"
    "m_from ex_remove = Some ''did:peer:alice''" "''did:peer:alice'' \<noteq> []"
    "truthy (m_to ex_remove)" "guardianStore ex_guardian = Some ex_store"
    by (simp_all add: ex_guardian_def ex_remove_def truthy_def)
  note removed = guardian_remove_deletes_policy_and_shares
    [OF valid, of "''M10''" "coralkm_type ''guardian-remove''"]
  have "m_to ex_remove = Some ''did:peer:GA''" "m_id ex_remove = ''M9''"
    by (simp_all add: ex_remove_def)
  with removed [THEN conjunct1] have reply: "handle_guardian_remove ''M10'' ex_guardian
      (coralkm_type ''guardian-remove'') ex_remove =
     (Inr (Some \<lparr>dm_id = ''M10'', dm_type = GUARDIAN_REMOVE_CONFIRM,
                 dm_from = Some ''did:peer:GA'', dm_to = [Some ''did:peer:alice''],
                 thid = Some ''M9'', pthid = None, body = NoBody\<rparr>),
      ex_guardian\<lparr>guardianStore :=
        Some (snd (removeGuardianPolicy ex_store ''did:peer:alice''))\<rparr>)"
    by simp
  have gone: "getShare (snd (removeGuardianPolicy ex_store ''did:peer:alice''))
      ''did:web:gw'' ''NS1'' = None"
  proof (cases "getShare (snd (removeGuardianPolicy ex_store ''did:peer:alice''))
      ''did:web:gw'' ''NS1''")
    case None
    then show ?thesis .
  next
    case (Some s)
    then have "shares (snd (removeGuardianPolicy ex_store ''did:peer:alice''))
        (hashKey ''did:web:gw'' ''NS1'') = Some s"
      by (simp add: getShare_def)
    with removed [THEN conjunct2, THEN conjunct2, THEN conjunct1]
    have "ownerDid s \<noteq> ''did:peer:alice''"
      and "shares ex_store (hashKey ''did:web:gw'' ''NS1'') = Some s"
      by blast+
    then have False by (auto simp: ex_store_def ex_share_def)
    then show ?thesis ..
  qed
  from reply gone show ?thesis by (rule conjI)
qed

text \<open>
  C7 as stated fails: after Alice's \<^verbatim>\<open>GUARDIAN_REMOVE\<close> her policy is not
  \<^verbatim>\<open>DENIED\<close>; there is no policy for her at all.
\<close>

theorem guardian_remove_policy_not_denied:
  "getGuardianPolicy
     (the (guardianStore (snd (handle_guardian_remove ''M10'' ex_guardian
            (coralkm_type ''guardian-remove'') ex_remove))))
     ''did:peer:alice'' = None
   \<and> getGuardianPolicy
     (the (guardianStore (snd (handle_guardian_remove ''M10'' ex_guardian
            (coralkm_type ''guardian-remove'') ex_remove))))
     ''did:peer:alice'' \<noteq> Some \<lparr>requesterDid = ''did:peer:alice'', status = DENIED\<rparr>"
  by (simp add: handle_guardian_remove_def assertRole_def assertMessageFieldDefined_def
      truthy_def removeGuardianPolicy_def getGuardianPolicy_def Let_def
      ex_guardian_def ex_remove_def ex_store_def)

section \<open>Guardianship is share possession\<close>












section \<open>Problem reports for rejected messages\<close>

lemma rejections_are_protocol_errors:
  "assertMessageFieldDefined False name mt
     = Some (DIDCommProtocolError
              ''invalid_argument:  Protocol Message {1} received without {2} set''
              ''invalid_argument'' mt (Some [getFullMessageType mt, name]))"
  "requiredRole \<notin> set agentRoles \<Longrightarrow> assertRole requiredRole agentRoles mt
     = Some (DIDCommProtocolError
              ''invalid_role:  Protocol Message {1} received by agent without required role {2}''
              ''invalid_role'' mt (Some [getFullMessageType mt, requiredRole]))"
  by (simp_all add: assertMessageFieldDefined_def assertRole_def)

text \<open>
  C8, as the code has it.  With the problem-report protocol registered (it is among the
  default protocols), a message that a protocol handler rejects with a
  \<^verbatim>\<open>DIDCommProtocolError\<close> gets exactly one problem report: from the message's
  \<^verbatim>\<open>to\<close>, addressed to the message's \<^verbatim>\<open>from\<close>, carrying the error's code,
  message and arguments, and with \<^verbatim>\<open>pthid\<close> the message's thread id when that is
  present and not empty, and the message's id otherwise.  A missing field, a missing role
  and an unsupported type are such rejections.
\<close>

theorem problem_report_for_rejected_message:
  assumes "''https://didcomm.org/report-problem/2.0'' \<in> set registered"
  shows "engine_handle registered new_id message (Inl (DIDCommProtocolError msg code mt args))
           = Inr [ReturnRouteResponse new_id
                   \<lparr>dm_id = new_id, dm_type = PROBLEM_REPORT,
                    dm_from = m_to message, dm_to = [m_from message], thid = None,
                    pthid = Some (case threadId message of
                                    None \<Rightarrow> m_id message
                                  | Some t \<Rightarrow> if t \<noteq> [] then t else m_id message),
                    body = ProblemReportBody code (Some msg) args None\<rparr>]
       \<and> is_DIDCommProtocolError (the (assertMessageFieldDefined False name mt'))
       \<and> err_code (the (assertMessageFieldDefined False name mt')) = ''invalid_argument''
       \<and> (requiredRole \<notin> set agentRoles \<longrightarrow>
            is_DIDCommProtocolError (the (assertRole requiredRole agentRoles mt'))
            \<and> err_code (the (assertRole requiredRole agentRoles mt')) = ''invalid_role'')
       \<and> is_DIDCommProtocolError (throwUnsupportedMessageType mt')
       \<and> err_code (throwUnsupportedMessageType mt') = ''unsupported_message_type''"
  using assms
  by (simp add: engine_handle_def createProblemReport_def js_or_def truthy_def
      rejections_are_protocol_errors throwUnsupportedMessageType_def split: option.split)

theorem problem_report_for_rejected_message_witness:
  "engine_handle ex_registered ''P1'' ex_remove
     (fst (handle_guardian_remove ''M10'' (ex_guardian\<lparr>roles := [''wallet'']\<rparr>)
             (coralkm_type ''guardian-remove'') ex_remove))
   = Inr [ReturnRouteResponse ''P1''
           \<lparr>dm_id = ''P1'', dm_type = PROBLEM_REPORT,
            dm_from = Some ''did:peer:GA'', dm_to = [Some ''did:peer:alice''], thid = None,
            pthid = Some ''M9'',
            body = ProblemReportBody ''invalid_role''
              (Some ''invalid_role:  Protocol Message {1} received by agent without required role {2}'')
              (Some [''https://coralstack.com/coralkm/0.1/guardian-remove'', ''guardian''])
              None\<rparr>]"
proof -
  have registered: "''https://didcomm.org/report-problem/2.0'' \<in> set ex_registered"
    by (simp add: ex_registered_def)
  have rejected: "fst (handle_guardian_remove ''M10'' (ex_guardian\<lparr>roles := [''wallet'']\<rparr>)
             (coralkm_type ''guardian-remove'') ex_remove)
      = Inl (DIDCommProtocolError
              ''invalid_role:  Protocol Message {1} received by agent without required role {2}''
              ''invalid_role'' (coralkm_type ''guardian-remove'')
              (Some [''https://coralstack.com/coralkm/0.1/guardian-remove'', ''guardian'']))"
    by (simp add: handle_guardian_remove_def assertRole_def ex_guardian_def
        getFullMessageType_def coralkm_type_def)
  show ?thesis
    unfolding rejected
    using problem_report_for_rejected_message [OF registered, THEN conjunct1,
        of "''P1''" ex_remove]
    by (simp add: ex_remove_def)
qed

text \<open>
  C8 as stated fails for a message whose thread id is the empty string: the message has a
  thread id, and the report carries the message's id instead.
\<close>

theorem problem_report_empty_thid:
  "threadId ex_offender = Some ''''
   \<and> engine_handle ex_registered ''P1'' ex_offender
       (Inl (throwUnsupportedMessageType (coralkm_type ''namespace-audit'')))
     = Inr [ReturnRouteResponse ''P1''
             \<lparr>dm_id = ''P1'', dm_type = PROBLEM_REPORT,
              dm_from = Some ''did:peer:GA'', dm_to = [Some ''did:peer:alice''], thid = None,
              pthid = Some ''M1'',
              body = ProblemReportBody ''unsupported_message_type''
                (Some ''unsupported_message_type: Protocol Message {1} of type {2} is not supported'')
                (Some [''https://coralstack.com/coralkm/0.1/namespace-audit'', ''namespace-audit''])
                None\<rparr>]"
  by (simp add: engine_handle_def createProblemReport_def js_or_def truthy_def
      throwUnsupportedMessageType_def ex_offender_def ex_registered_def
      getFullMessageType_def coralkm_type_def)

section \<open>Share distribution after a change of guardians\<close>





lemma ceil_half: "nat \<lceil>real n / 2\<rceil> = (n + 1) div 2"
  by linarith



section \<open>Which share each guardian is sent\<close>

text \<open>
  C3 at its failing input.  The split returns two shares for the two guardians, but the
  loop indexes them by the position of the channel among all channels: the gateway's
  channel takes position 0, so \<^verbatim>\<open>GA\<close> is sent the second share, \<^verbatim>\<open>GB\<close> is sent
  \<^verbatim>\<open>dekShares[2]\<close>, which is undefined, and the first share is sent to nobody.
\<close>

theorem share_index_counts_all_channels:
  "ex_splitDEK ''DEK'' 2 2 = Some [''DEK-share-I'', ''DEK-share-II'']
   \<and> sent (updateGuardianShares ex_splitDEK ex_wallet)
     = [\<lparr>su_from = Some ''did:peer:alice'', su_to = ''did:peer:GA'',
         su_namespace = Some \<lparr>ns_id = ''NS1'', gateway_did = ''did:web:gw''\<rparr>,
         su_threshold = 2, su_share = Some ''DEK-share-II''\<rparr>,
        \<lparr>su_from = Some ''did:peer:alice'', su_to = ''did:peer:GB'',
         su_namespace = Some \<lparr>ns_id = ''NS1'', gateway_did = ''did:web:gw''\<rparr>,
         su_threshold = 2, su_share = None\<rparr>]"
proof -
  have two_shares: "ex_splitDEK ''DEK'' 2 2 = Some [''DEK-share-I'', ''DEK-share-II'']"
    by (simp add: ex_splitDEK_def upt_rec)
  have total: "totalShares (channels ex_wallet) = 2"
    by (simp add: totalShares_def ex_wallet_def)
  have thr: "resplit_threshold 2 = 2"
    by (simp add: resplit_threshold_def)
  have key: "walletKey ex_wallet = Some ''DEK''"
    by (simp add: ex_wallet_def)
  have "sent (updateGuardianShares ex_splitDEK ex_wallet)
      = shareUpdates ex_wallet 2 [''DEK-share-I'', ''DEK-share-II''] 0 (channels ex_wallet)"
    by (simp add: updateGuardianShares_def total thr two_shares key)
  also have "\<dots> = [\<lparr>su_from = Some ''did:peer:alice'', su_to = ''did:peer:GA'',
         su_namespace = Some \<lparr>ns_id = ''NS1'', gateway_did = ''did:web:gw''\<rparr>,
         su_threshold = 2, su_share = Some ''DEK-share-II''\<rparr>,
        \<lparr>su_from = Some ''did:peer:alice'', su_to = ''did:peer:GB'',
         su_namespace = Some \<lparr>ns_id = ''NS1'', gateway_did = ''did:web:gw''\<rparr>,
         su_threshold = 2, su_share = None\<rparr>]"
    by (simp add: ex_wallet_def nth_opt_def)
  finally show ?thesis using two_shares by simp
qed

section \<open>Collecting released shares\<close>

lemma receiveShares_from:
  assumes "\<forall>m \<in> set ms. rs_threshold m = t" "int (length (recovery_shares r)) < t"
  shows "receiveShares r ms =
     (if int (length (recovery_shares r) + length ms) < t
      then Collecting (r\<lparr>recovery_shares := recovery_shares r @ map rs_share ms\<rparr>)
      else Restoring (r\<lparr>recovery_shares :=
             recovery_shares r @ map rs_share (take (nat t - length (recovery_shares r)) ms)\<rparr>))"
  using assms
proof (induction ms arbitrary: r)
  case Nil
  then show ?case by simp
next
  case (Cons m ms)
  let ?r' = "r\<lparr>recovery_shares := recovery_shares r @ [rs_share m]\<rparr>"
  from Cons.prems have thr: "rs_threshold m = t" and rest: "\<forall>m \<in> set ms. rs_threshold m = t"
    by simp_all
  show ?case
  proof (cases "int (length (recovery_shares r)) + 1 < t")
    case True
    then have step: "onReleaseShare (Some r) m = Collecting ?r'"
      by (simp add: onReleaseShare_def thr Let_def)
    have "int (length (recovery_shares ?r')) < t" using True by simp
    from Cons.IH [OF rest this] True show ?thesis
      by (simp add: step Suc_diff_le nat_diff_distrib' take_Cons')
  next
    case False
    then have step: "onReleaseShare (Some r) m = Restoring ?r'"
      by (simp add: onReleaseShare_def thr Let_def)
    from False Cons.prems(2) have "nat t - length (recovery_shares r) = 1"
      by linarith
    with False show ?thesis
      by (simp add: step)
  qed
qed


text \<open>
  C2, as the code has it: shares are not deduplicated.  A released share received during
  a recovery is appended whoever sent it and whatever was collected before, and the
  restore is entered as soon as the number of shares collected reaches the threshold of
  the message just received.  For messages that carry one threshold \<open>t\<close>, received by
  a recovery just started: fewer than \<open>t\<close> messages are all collected; otherwise the
  restore is entered on the message number \<open>t\<close>, with the shares of the first \<open>t\<close>
  messages, duplicates included.
\<close>

theorem released_shares_counted_per_message:
  assumes "\<forall>m \<in> set ms. rs_threshold m = t" "1 \<le> t" "recovery_shares r = []"
  shows "receiveShares r ms =
           (if int (length ms) < t
            then Collecting (r\<lparr>recovery_shares := map rs_share ms\<rparr>)
            else Restoring (r\<lparr>recovery_shares := map rs_share (take (nat t) ms)\<rparr>))
       \<and> onReleaseShare (Some r') m =
           (if rs_threshold m \<le> int (length (recovery_shares r')) + 1
            then Restoring (r'\<lparr>recovery_shares := recovery_shares r' @ [rs_share m]\<rparr>)
            else Collecting (r'\<lparr>recovery_shares := recovery_shares r' @ [rs_share m]\<rparr>))"
proof
  from assms(2,3) have "int (length (recovery_shares r)) < t" by simp
  from receiveShares_from [OF assms(1) this] assms(3)
  show "receiveShares r ms =
           (if int (length ms) < t
            then Collecting (r\<lparr>recovery_shares := map rs_share ms\<rparr>)
            else Restoring (r\<lparr>recovery_shares := map rs_share (take (nat t) ms)\<rparr>))"
    by simp
next
  show "onReleaseShare (Some r') m =
           (if rs_threshold m \<le> int (length (recovery_shares r')) + 1
            then Restoring (r'\<lparr>recovery_shares := recovery_shares r' @ [rs_share m]\<rparr>)
            else Collecting (r'\<lparr>recovery_shares := recovery_shares r' @ [rs_share m]\<rparr>))"
    by (simp add: onReleaseShare_def Let_def)
qed

theorem released_shares_counted_per_message_witness:
  "receiveShares ex_recovery
     [ex_release ''did:peer:GA'' ''share-A'', ex_release ''did:peer:GB'' ''share-B'']
   = Restoring (ex_recovery\<lparr>recovery_shares := [''share-A'', ''share-B'']\<rparr>)
   \<and> receiveShares ex_recovery [ex_release ''did:peer:GA'' ''share-A'']
   = Collecting (ex_recovery\<lparr>recovery_shares := [''share-A'']\<rparr>)"
proof -
  have fresh: "recovery_shares ex_recovery = []"
    by (simp add: ex_recovery_def)
  have two: "\<forall>m \<in> set [ex_release ''did:peer:GA'' ''share-A'',
      ex_release ''did:peer:GB'' ''share-B'']. rs_threshold m = 2"
    by (simp add: ex_release_def)
  have one: "\<forall>m \<in> set [ex_release ''did:peer:GA'' ''share-A'']. rs_threshold m = 2"
    by (simp add: ex_release_def)
  have "receiveShares ex_recovery
     [ex_release ''did:peer:GA'' ''share-A'', ex_release ''did:peer:GB'' ''share-B'']
   = Restoring (ex_recovery\<lparr>recovery_shares := [''share-A'', ''share-B'']\<rparr>)"
    using released_shares_counted_per_message [OF two _ fresh, THEN conjunct1]
    by (simp add: ex_release_def)
  moreover have "receiveShares ex_recovery [ex_release ''did:peer:GA'' ''share-A'']
   = Collecting (ex_recovery\<lparr>recovery_shares := [''share-A'']\<rparr>)"
    using released_shares_counted_per_message [OF one _ fresh, THEN conjunct1]
    by (simp add: ex_release_def)
  ultimately show ?thesis ..
qed

text \<open>
  C2 as stated fails: the guardian \<^verbatim>\<open>GA\<close> releases its share twice, the second copy
  is appended and counted, and the restore is entered with one distinct guardian where
  the threshold is 2.
\<close>

theorem duplicate_share_reaches_threshold:
  "distinct_guardians
     [ex_release ''did:peer:GA'' ''share-A'', ex_release ''did:peer:GA'' ''share-A''] = 1
   \<and> receiveShares ex_recovery
       [ex_release ''did:peer:GA'' ''share-A'', ex_release ''did:peer:GA'' ''share-A'']
     = Restoring (ex_recovery\<lparr>recovery_shares := [''share-A'', ''share-A'']\<rparr>)"
  by (simp add: distinct_guardians_def ex_release_def ex_recovery_def onReleaseShare_def)

section \<open>Placeholders in the comment of a problem report\<close>

declare decimal.simps [simp del]

lemma match_placeholder_sound:
  assumes "match_placeholder s = Some (index, rest)"
  shows "s = CHR ''{'' # index @ CHR ''}'' # rest \<and> index \<noteq> [] \<and> list_all is_digit index"
proof -
  from assms obtain cs where s: "s = CHR ''{'' # cs"
    by (cases s) (auto simp: match_placeholder_def split: if_splits)
  with assms have d: "dropWhile is_digit cs = CHR ''}'' # rest"
    and t: "takeWhile is_digit cs = index" and "index \<noteq> []"
    by (auto simp: match_placeholder_def split: if_splits list.splits)
  have "cs = takeWhile is_digit cs @ dropWhile is_digit cs" by simp
  with d t have "cs = index @ CHR ''}'' # rest" by simp
  moreover have "list_all is_digit index"
    using t by (metis list_all_iff set_takeWhileD)
  ultimately show ?thesis using s \<open>index \<noteq> []\<close> by simp
qed

lemma match_placeholder_complete:
  assumes "index \<noteq> []" "list_all is_digit index"
  shows "match_placeholder (CHR ''{'' # index @ CHR ''}'' # rest) = Some (index, rest)"
proof -
  have "\<not> is_digit CHR ''}''" by (simp add: is_digit_def)
  with assms(2) have "takeWhile is_digit (index @ CHR ''}'' # rest) = index"
    and "dropWhile is_digit (index @ CHR ''}'' # rest) = CHR ''}'' # rest"
    by (simp_all add: list_all_iff takeWhile_tail dropWhile_append3)
  with assms(1) show ?thesis by (simp add: match_placeholder_def)
qed

lemma match_placeholder_before_brace:
  assumes "pre \<noteq> []"
  shows "match_placeholder (pre @ CHR ''{'' # t)
     = map_option (\<lambda>(index, rest). (index, rest @ CHR ''{'' # t)) (match_placeholder pre)"
proof -
  from assms obtain c cs where pre: "pre = c # cs" by (cases pre) auto
  have brace: "\<not> is_digit CHR ''{''" by (simp add: is_digit_def)
  show ?thesis
  proof (cases "dropWhile is_digit cs")
    case Nil
    then have "\<forall>x \<in> set cs. is_digit x" by (simp add: dropWhile_eq_Nil_conv)
    with brace have "dropWhile is_digit (cs @ CHR ''{'' # t) = CHR ''{'' # t"
      by (simp add: dropWhile_append)
    moreover have "match_placeholder pre = None"
      by (simp add: pre match_placeholder_def Nil del: dropWhile_eq_Nil_conv)
    ultimately show ?thesis
      by (simp add: pre match_placeholder_def del: dropWhile_eq_Nil_conv)
  next
    case (Cons c' rest)
    then obtain x where "x \<in> set cs" "\<not> is_digit x"
      by (metis dropWhile_eq_Nil_conv list.distinct(1))
    then have "dropWhile is_digit (cs @ CHR ''{'' # t) = dropWhile is_digit cs @ CHR ''{'' # t"
      and "takeWhile is_digit (cs @ CHR ''{'' # t) = takeWhile is_digit cs"
      by (simp_all add: dropWhile_append1 takeWhile_append1)
    with Cons show ?thesis by (simp add: pre match_placeholder_def)
  qed
qed

lemma replace_placeholders_around:
  assumes "index \<noteq> []" "list_all is_digit index"
  shows "replace_placeholders f (pre @ CHR ''{'' # index @ CHR ''}'' # post)
     = replace_placeholders f pre @ f index @ replace_placeholders f post"
proof (induction f pre rule: replace_placeholders.induct)
  case (1 f)
  have "replace_placeholders f (CHR ''{'' # index @ CHR ''}'' # post)
      = f index @ replace_placeholders f post"
    by (simp add: match_placeholder_complete [OF assms])
  then show ?case by simp
next
  case (2 f c cs)
  let ?t = "index @ CHR ''}'' # post"
  have m: "match_placeholder ((c # cs) @ CHR ''{'' # ?t)
     = map_option (\<lambda>(i, r). (i, r @ CHR ''{'' # ?t)) (match_placeholder (c # cs))"
    by (rule match_placeholder_before_brace) simp
  show ?case
  proof (cases "match_placeholder (c # cs)")
    case None
    with m have "match_placeholder (c # cs @ CHR ''{'' # ?t) = None" by simp
    with None "2.IH"(1) show ?thesis by simp
  next
    case (Some a)
    obtain i r where a: "a = (i, r)" by (cases a)
    with m Some have "match_placeholder (c # cs @ CHR ''{'' # ?t) = Some (i, r @ CHR ''{'' # ?t)"
      by simp
    moreover have "replace_placeholders f (r @ CHR ''{'' # ?t)
        = replace_placeholders f r @ f index @ replace_placeholders f post"
      using "2.IH"(2) [OF Some a [symmetric]] .
    ultimately show ?thesis using Some a by simp
  qed
qed

lemma replace_placeholders_none:
  assumes "\<forall>pre index post. s = pre @ CHR ''{'' # index @ CHR ''}'' # post
             \<longrightarrow> index = [] \<or> \<not> list_all is_digit index"
  shows "replace_placeholders f s = s"
  using assms
proof (induction f s rule: replace_placeholders.induct)
  case (1 f)
  then show ?case by simp
next
  case (2 f c cs)
  have none: "match_placeholder (c # cs) = None"
  proof (cases "match_placeholder (c # cs)")
    case None
    then show ?thesis .
  next
    case (Some a)
    obtain i r where "a = (i, r)" by (cases a)
    with Some match_placeholder_sound [of "c # cs" i r]
    have "c # cs = [] @ CHR ''{'' # i @ CHR ''}'' # r" "i \<noteq> []" "list_all is_digit i"
      by simp_all
    with "2.prems" show ?thesis by blast
  qed
  have "\<forall>pre index post. cs = pre @ CHR ''{'' # index @ CHR ''}'' # post
          \<longrightarrow> index = [] \<or> \<not> list_all is_digit index"
  proof (intro allI impI)
    fix pre index post assume "cs = pre @ CHR ''{'' # index @ CHR ''}'' # post"
    then have "c # cs = (c # pre) @ CHR ''{'' # index @ CHR ''}'' # post" by simp
    with "2.prems" show "index = [] \<or> \<not> list_all is_digit index" by blast
  qed
  with "2.IH"(1) [OF none] none show ?case by simp
qed


lemma digit_char:
  assumes "d < 10"
  shows "is_digit (''0123456789'' ! d)" "digit_value (''0123456789'' ! d) = d"
proof -
  show "is_digit (''0123456789'' ! d)"
    unfolding is_digit_def using assms by (intro nth_mem) simp
  from assms have "d = 0 \<or> d = 1 \<or> d = 2 \<or> d = 3 \<or> d = 4 \<or> d = 5 \<or> d = 6 \<or> d = 7
      \<or> d = 8 \<or> d = 9"
    by arith
  then show "digit_value (''0123456789'' ! d) = d"
    by (auto simp: digit_value_def)
qed

lemma parseInt_snoc: "parseInt (ds @ [c]) = 10 * parseInt ds + digit_value c"
  by (simp add: parseInt_def)

lemma decimal_digits: "decimal n \<noteq> [] \<and> list_all is_digit (decimal n)"
proof (induction n rule: decimal.induct)
  case (1 n)
  show ?case
  proof (cases "n < 10")
    case True
    then have "decimal n = [''0123456789'' ! n]" by (subst decimal.simps) simp
    with True show ?thesis by (simp add: digit_char)
  next
    case False
    then have "decimal n = decimal (n div 10) @ [''0123456789'' ! (n mod 10)]"
      by (subst decimal.simps) simp
    with False 1 show ?thesis by (simp add: digit_char)
  qed
qed

lemma parseInt_decimal: "parseInt (decimal n) = n"
proof (induction n rule: decimal.induct)
  case (1 n)
  show ?case
  proof (cases "n < 10")
    case True
    then have "decimal n = [''0123456789'' ! n]" by (subst decimal.simps) simp
    with True show ?thesis by (simp add: parseInt_def digit_char)
  next
    case False
    then have "decimal n = decimal (n div 10) @ [''0123456789'' ! (n mod 10)]"
      by (subst decimal.simps) simp
    with False 1 show ?thesis by (simp add: parseInt_snoc digit_char)
  qed
qed


lemma processComment_around:
  assumes "args \<noteq> []" "index \<noteq> []" "list_all is_digit index"
  shows "processComment (pre @ ''{'' @ index @ ''}'' @ post) (Some args) =
     processComment pre (Some args)
     @ (if 1 \<le> parseInt index \<and> parseInt index \<le> length args
        then args ! (parseInt index - 1) else ''{'' @ index @ ''}'')
     @ processComment post (Some args)"
proof -
  have "(0 \<le> int (parseInt index) - 1 \<and> int (parseInt index) - 1 < int (length args))
      \<longleftrightarrow> (1 \<le> parseInt index \<and> parseInt index \<le> length args)"
    by linarith
  moreover have "nat (int (parseInt index) - 1) = parseInt index - 1"
    by linarith
  ultimately show ?thesis
    using assms(1) replace_placeholders_around [OF assms(2,3), of _ pre post]
    by (simp add: processComment_def Let_def)
qed

text \<open>
  C9.  Without arguments, or with an empty argument list, the comment is returned as it
  is.  Otherwise a placeholder, an opening brace, a non-empty string of digits and a
  closing brace, is replaced where it stands by the argument at the position its digits
  denote, counted from one, and is left as it is when there is no such argument; the
  text before it and the text after it are processed on their own.  In particular the
  placeholder with the decimal numeral of \<open>i\<close> is replaced by \<open>args[i - 1]\<close> when
  \<open>1 \<le> i \<le> length args\<close> and kept otherwise, and a comment without any placeholder
  is returned as it is.
\<close>

theorem processComment_substitutes_placeholders:
  "processComment comment None = comment
   \<and> processComment comment (Some []) = comment
   \<and> (args \<noteq> [] \<and> index \<noteq> [] \<and> list_all is_digit index \<longrightarrow>
        processComment (pre @ ''{'' @ index @ ''}'' @ post) (Some args) =
          processComment pre (Some args)
          @ (if 1 \<le> parseInt index \<and> parseInt index \<le> length args
             then args ! (parseInt index - 1) else ''{'' @ index @ ''}'')
          @ processComment post (Some args))
   \<and> (args \<noteq> [] \<and> 1 \<le> i \<and> i \<le> length args \<longrightarrow>
        processComment (pre @ ''{'' @ decimal i @ ''}'' @ post) (Some args) =
          processComment pre (Some args) @ args ! (i - 1) @ processComment post (Some args))
   \<and> (args \<noteq> [] \<and> (i = 0 \<or> length args < i) \<longrightarrow>
        processComment (pre @ ''{'' @ decimal i @ ''}'' @ post) (Some args) =
          processComment pre (Some args) @ ''{'' @ decimal i @ ''}''
          @ processComment post (Some args))
   \<and> ((\<forall>p x q. comment = p @ ''{'' @ x @ ''}'' @ q \<longrightarrow> x = [] \<or> \<not> list_all is_digit x) \<longrightarrow>
        processComment comment optional_args = comment)"
proof (intro conjI impI)
  show "processComment comment None = comment"
    by (simp add: processComment_def)
next
  show "processComment comment (Some []) = comment"
    by (simp add: processComment_def)
next
  assume "args \<noteq> [] \<and> index \<noteq> [] \<and> list_all is_digit index"
  then show "processComment (pre @ ''{'' @ index @ ''}'' @ post) (Some args) =
      processComment pre (Some args)
      @ (if 1 \<le> parseInt index \<and> parseInt index \<le> length args
         then args ! (parseInt index - 1) else ''{'' @ index @ ''}'')
      @ processComment post (Some args)"
    by (intro processComment_around) simp_all
next
  assume "args \<noteq> [] \<and> 1 \<le> i \<and> i \<le> length args"
  then show "processComment (pre @ ''{'' @ decimal i @ ''}'' @ post) (Some args) =
      processComment pre (Some args) @ args ! (i - 1) @ processComment post (Some args)"
    using processComment_around [of args "decimal i" pre post] decimal_digits [of i]
    by (simp add: parseInt_decimal)
next
  assume "args \<noteq> [] \<and> (i = 0 \<or> length args < i)"
  then show "processComment (pre @ ''{'' @ decimal i @ ''}'' @ post) (Some args) =
      processComment pre (Some args) @ ''{'' @ decimal i @ ''}''
      @ processComment post (Some args)"
    using processComment_around [of args "decimal i" pre post] decimal_digits [of i]
    by (auto simp: parseInt_decimal)
next
  assume "\<forall>p x q. comment = p @ ''{'' @ x @ ''}'' @ q \<longrightarrow> x = [] \<or> \<not> list_all is_digit x"
  then have "replace_placeholders f comment = comment" for f
    by (intro replace_placeholders_none) simp
  then show "processComment comment optional_args = comment"
    by (simp add: processComment_def split: option.split)
qed

theorem processComment_substitutes_placeholders_witness:
  "processComment ''Namespace {1} not found, see {3}'' (Some [''NS1''])
     = ''Namespace NS1 not found, see {3}''"
proof -
  have one: "decimal (Suc 0) = ''1''" by (subst decimal.simps) simp
  have before: "processComment ''Namespace '' (Some [''NS1'']) = ''Namespace ''"
    by (simp add: processComment_def match_placeholder_def)
  have after: "processComment '' not found, see {3}'' (Some [''NS1'']) = '' not found, see {3}''"
    by (simp add: processComment_def match_placeholder_def is_digit_def parseInt_def
        digit_value_def)
  have "processComment (''Namespace '' @ ''{'' @ decimal 1 @ ''}'' @ '' not found, see {3}'')
      (Some [''NS1''])
    = processComment ''Namespace '' (Some [''NS1'']) @ [''NS1''] ! (1 - 1)
      @ processComment '' not found, see {3}'' (Some [''NS1''])"
    using processComment_substitutes_placeholders
      [where args = "[''NS1'']" and i = 1 and pre = "''Namespace ''"
         and post = "'' not found, see {3}''",
       THEN conjunct2, THEN conjunct2, THEN conjunct2, THEN conjunct1]
    by simp
  then show ?thesis
    by (simp add: one before after)
qed


section \<open>Encoding helpers of EncryptionManager\<close>

lemma TextDecoder_TextEncoder: "TextDecoder_decode (TextEncoder_encode s) = s"
  by (simp add: TextDecoder_decode_def TextEncoder_encode_def unat_of_nat map_idI)


text \<open>The constant-time comparison decides equality of the byte arrays.\<close>

lemma xor_zero_eq: "(x :: 8 word) XOR y = 0 \<longleftrightarrow> x = y"
  by (metis bit.xor_left_self xor.right_neutral)

lemma fold_differences:
  "fold (\<lambda>(x, y) diff. diff OR (x XOR y)) xys (d :: 8 word) = 0
     \<longleftrightarrow> d = 0 \<and> (\<forall>(x, y) \<in> set xys. x = y)"
  by (induction xys arbitrary: d) (auto simp: or_eq_0_iff xor_zero_eq)

lemma equals_iff: "equals a b \<longleftrightarrow> a = b"
proof (cases "length a = length b")
  case True
  then have "(\<forall>(x, y) \<in> set (zip a b). x = y) \<longleftrightarrow> a = b"
    by (induction a b rule: list_induct2) auto
  with True show ?thesis by (simp add: equals_def fold_differences)
next
  case False
  then show ?thesis by (auto simp: equals_def)
qed

lemma length_sextets: "length (sextets ns) = (4 * length ns + 2) div 3"
  by (induction ns rule: sextets.induct) simp_all

lemma sextets_bound:
  "\<forall>n \<in> set ns. n < 256 \<Longrightarrow> \<forall>s \<in> set (sextets ns). s < 64"
proof (induction ns rule: sextets.induct)
  case 1
  then show ?case by simp
next
  case (2 a)
  then have "a < 256" by simp
  then have "a div 4 < 64" "a mod 4 * 16 < 64" by arith+
  then show ?case by simp
next
  case (3 a b)
  then have "a < 256" "b < 256" by simp_all
  then have "a div 4 < 64" "a mod 4 * 16 + b div 16 < 64" "b mod 16 * 4 < 64" by arith+
  then show ?case by simp
next
  case (4 a b c rest)
  from "4.prems" have small: "a < 256" "b < 256" "c < 256" and rest: "\<forall>n \<in> set rest. n < 256"
    by simp_all
  from small have "a div 4 < 64" "a mod 4 * 16 + b div 16 < 64" "b mod 16 * 4 + c div 64 < 64"
    "c mod 64 < 64" by arith+
  with "4.IH" [OF rest] show ?case by simp
qed


lemma group_div: "y < m \<Longrightarrow> (x * m + y) div m = (x :: nat)"
  by simp

lemma group_mod: "y < m \<Longrightarrow> (x * m + y) mod m = (y :: nat)"
  by simp

lemma octets_sextets:
  "\<forall>n \<in> set ns. n < 256 \<Longrightarrow> octets (sextets ns) = ns"
proof (induction ns rule: sextets.induct)
  case 1
  then show ?case by simp
next
  case (2 a)
  then show ?case by simp
next
  case (3 a b)
  then have "b < 256" by simp
  then have "b div 16 < 16" by arith
  then show ?case by (simp add: group_div group_mod)
next
  case (4 a b c rest)
  from "4.prems" have "b < 256" "c < 256" and rest: "\<forall>n \<in> set rest. n < 256"
    by simp_all
  then have "b div 16 < 16" "c div 64 < 4" by arith+
  with "4.IH" [OF rest] show ?case by (simp add: group_div group_mod)
qed

lemma base64_index_nth:
  assumes "s < 64"
  shows "base64_index (base64_alphabet ! s) = Some s"
proof -
  have "map_of (zip base64_alphabet [0..<64]) (base64_alphabet ! s) = Some ([0..<64] ! s)"
    using assms by (intro map_of_zip_nth) (simp_all add: base64_alphabet_def)
  with assms show ?thesis by (simp add: base64_index_def)
qed

lemma base64_alphabet_chars:
  assumes "c \<in> set base64_alphabet"
  shows "c \<noteq> CHR ''=''" "c \<noteq> CHR ''-''" "c \<noteq> CHR ''_''" "\<not> is_ascii_whitespace c"
proof -
  have "CHR ''='' \<notin> set base64_alphabet" "CHR ''-'' \<notin> set base64_alphabet"
    "CHR ''_'' \<notin> set base64_alphabet" "CHR 0x09 \<notin> set base64_alphabet"
    "CHR 0x0A \<notin> set base64_alphabet" "CHR 0x0C \<notin> set base64_alphabet"
    "CHR 0x0D \<notin> set base64_alphabet" "CHR 0x20 \<notin> set base64_alphabet"
    by (simp_all add: base64_alphabet_def)
  with assms show "c \<noteq> CHR ''=''" "c \<noteq> CHR ''-''" "c \<noteq> CHR ''_''"
    "\<not> is_ascii_whitespace c"
    by (auto simp: is_ascii_whitespace_def)
qed

lemma body_length_cases:
  fixes n :: nat
  obtains q where "n = 3 * q" "(4 * n + 2) div 3 = 4 * q"
  | q where "n = 3 * q + 1" "(4 * n + 2) div 3 = 4 * q + 2"
  | q where "n = 3 * q + 2" "(4 * n + 2) div 3 = 4 * q + 3"
proof -
  have "n mod 3 = 0 \<or> n mod 3 = 1 \<or> n mod 3 = 2" by arith
  moreover have "n = 3 * (n div 3) + n mod 3" by simp
  ultimately consider "n = 3 * (n div 3)" | "n = 3 * (n div 3) + 1" | "n = 3 * (n div 3) + 2"
    by arith
  then show ?thesis
  proof cases
    case 1
    then have "(4 * n + 2) div 3 = 4 * (n div 3)" by arith
    with 1 that(1) show ?thesis by blast
  next
    case 2
    then have "(4 * n + 2) div 3 = 4 * (n div 3) + 2" by arith
    with 2 that(2) show ?thesis by blast
  next
    case 3
    then have "(4 * n + 2) div 3 = 4 * (n div 3) + 3" by arith
    with 3 that(3) show ?thesis by blast
  qed
qed

lemma padding_length:
  "(if (4 * n + 2) div 3 mod 4 \<noteq> 0 then 4 - (4 * n + 2) div 3 mod 4 else 0)
     = (3 - n mod 3) mod (3 :: nat)"
proof (cases n rule: body_length_cases)
  case (1 q)
  show ?thesis unfolding 1(2) unfolding 1(1) by simp
next
  case (2 q)
  have "(4 * q + 2) mod 4 = (2 :: nat)" "(3 * q + 1) mod 3 = (1 :: nat)" by arith+
  then show ?thesis unfolding 2(2) unfolding 2(1) by simp
next
  case (3 q)
  have "(4 * q + 3) mod 4 = (3 :: nat)" "(3 * q + 2) mod 3 = (2 :: nat)" by arith+
  then show ?thesis unfolding 3(2) unfolding 3(1) by simp
qed

lemma padded_length: "((4 * n + 2) div 3 + (3 - n mod 3) mod 3) mod 4 = (0 :: nat)"
proof (cases n rule: body_length_cases)
  case (1 q)
  show ?thesis unfolding 1(2) unfolding 1(1) by simp
next
  case (2 q)
  have "(3 * q + 1) mod 3 = (1 :: nat)" "(4 * q + 2 + 2) mod 4 = (0 :: nat)" by arith+
  then show ?thesis unfolding 2(2) unfolding 2(1) by simp
next
  case (3 q)
  have "(3 * q + 2) mod 3 = (2 :: nat)" "(4 * q + 3 + 1) mod 4 = (0 :: nat)" by arith+
  then show ?thesis unfolding 3(2) unfolding 3(1) by simp
qed

lemma body_length_mod: "(4 * n + 2) div 3 mod 4 \<noteq> (1 :: nat)"
proof (cases n rule: body_length_cases)
  case (1 q)
  show ?thesis unfolding 1(2) by simp
next
  case (2 q)
  have "(4 * q + 2) mod 4 = (2 :: nat)" by arith
  then show ?thesis unfolding 2(2) by simp
next
  case (3 q)
  have "(4 * q + 3) mod 4 = (3 :: nat)" by arith
  then show ?thesis unfolding 3(2) by simp
qed

subsection \<open>toBase64Url and fromBase64Url\<close>

lemma strip_padding_replicate:
  assumes "CHR ''='' \<notin> set xs"
  shows "strip_padding (xs @ replicate k CHR ''='') = xs"
proof -
  have "dropWhile (\<lambda>c. c = CHR ''='') (replicate k CHR ''='' @ rev xs)
      = dropWhile (\<lambda>c. c = CHR ''='') (rev xs)"
    by (rule dropWhile_append2) simp
  also have "\<dots> = rev xs"
  proof (cases "rev xs")
    case Nil
    then show ?thesis by simp
  next
    case (Cons y ys)
    then have "y \<in> set (rev xs)" by simp
    with assms have "y \<noteq> CHR ''=''" by auto
    with Cons show ?thesis by simp
  qed
  finally show ?thesis by (simp add: strip_padding_def)
qed

lemma replace_char_append:
  "replace_char old new (xs @ ys) = replace_char old new xs @ replace_char old new ys"
  by (simp add: replace_char_def)

lemma replace_char_padding:
  "old \<noteq> CHR ''='' \<Longrightarrow> replace_char old new (replicate k CHR ''='') = replicate k CHR ''=''"
  by (simp add: replace_char_def)

lemma url_escape_char:
  assumes "c \<noteq> CHR ''-''" "c \<noteq> CHR ''_''"
  shows "((\<lambda>c. if c = CHR ''_'' then CHR ''/'' else c) \<circ> (\<lambda>c. if c = CHR ''-'' then CHR ''+'' else c)
          \<circ> (\<lambda>c. if c = CHR ''/'' then CHR ''_'' else c)
          \<circ> (\<lambda>c. if c = CHR ''+'' then CHR ''-'' else c)) c = c"
  using assms by simp

lemma url_escape_inverse:
  assumes "set xs \<subseteq> set base64_alphabet"
  shows "replace_char CHR ''_'' CHR ''/'' (replace_char CHR ''-'' CHR ''+''
          (replace_char CHR ''/'' CHR ''_'' (replace_char CHR ''+'' CHR ''-'' xs))) = xs"
proof -
  have "map ((\<lambda>c. if c = CHR ''_'' then CHR ''/'' else c) \<circ> (\<lambda>c. if c = CHR ''-'' then CHR ''+'' else c)
          \<circ> (\<lambda>c. if c = CHR ''/'' then CHR ''_'' else c)
          \<circ> (\<lambda>c. if c = CHR ''+'' then CHR ''-'' else c)) xs = xs"
  proof (rule map_idI)
    fix c assume "c \<in> set xs"
    with assms have "c \<in> set base64_alphabet" by blast
    then have "c \<noteq> CHR ''-''" "c \<noteq> CHR ''_''" by (rule base64_alphabet_chars)+
    then show "((\<lambda>c. if c = CHR ''_'' then CHR ''/'' else c)
          \<circ> (\<lambda>c. if c = CHR ''-'' then CHR ''+'' else c)
          \<circ> (\<lambda>c. if c = CHR ''/'' then CHR ''_'' else c)
          \<circ> (\<lambda>c. if c = CHR ''+'' then CHR ''-'' else c)) c = c"
      by (rule url_escape_char)
  qed
  then show ?thesis by (simp add: replace_char_def comp_assoc)
qed

lemma url_escape_no_padding:
  assumes "set xs \<subseteq> set base64_alphabet"
  shows "CHR ''='' \<notin> set (replace_char CHR ''/'' CHR ''_'' (replace_char CHR ''+'' CHR ''-'' xs))"
proof
  assume "CHR ''='' \<in> set (replace_char CHR ''/'' CHR ''_'' (replace_char CHR ''+'' CHR ''-'' xs))"
  then obtain c where "c \<in> set xs"
    and "(if (if c = CHR ''+'' then CHR ''-'' else c) = CHR ''/'' then CHR ''_''
          else (if c = CHR ''+'' then CHR ''-'' else c)) = CHR ''=''"
    by (auto simp: replace_char_def)
  then have "c = CHR ''=''" by (simp split: if_splits)
  with \<open>c \<in> set xs\<close> assms base64_alphabet_chars(1) show False by blast
qed

lemma byte_values: "\<forall>n \<in> set (map unat (bs :: bytes)). n < 256"
proof
  fix n assume "n \<in> set (map unat bs)"
  then obtain b :: "8 word" where "n = unat b" by auto
  moreover have "unat b < 2 ^ LENGTH(8)" by (rule unsigned_less)
  ultimately show "n < 256" by simp
qed

lemma length_base64_alphabet: "length base64_alphabet = 64"
  by (simp add: base64_alphabet_def)

text \<open>The characters that \<^verbatim>\<open>btoa\<close> writes before the padding.\<close>

lemma btoa_chars:
  fixes bs :: bytes
  defines "chars \<equiv> map (\<lambda>s. base64_alphabet ! s) (sextets (map unat bs))"
  shows "set chars \<subseteq> set base64_alphabet"
    and "length chars = (4 * length bs + 2) div 3"
    and "map (\<lambda>c. the (base64_index c)) chars = sextets (map unat bs)"
proof -
  have bound: "\<forall>s \<in> set (sextets (map unat bs)). s < 64"
    using byte_values by (rule sextets_bound)
  show "set chars \<subseteq> set base64_alphabet"
  proof
    fix c assume "c \<in> set chars"
    then obtain s where "s \<in> set (sextets (map unat bs))" "c = base64_alphabet ! s"
      by (auto simp: chars_def)
    with bound show "c \<in> set base64_alphabet"
      by (simp add: length_base64_alphabet)
  qed
  show "length chars = (4 * length bs + 2) div 3"
    by (simp add: chars_def length_sextets)
  have "map (\<lambda>c. the (base64_index c)) chars
      = map (\<lambda>s. the (base64_index (base64_alphabet ! s))) (sextets (map unat bs))"
    by (simp add: chars_def comp_def)
  also have "\<dots> = sextets (map unat bs)"
    using bound by (intro map_idI) (simp add: base64_index_nth)
  finally show "map (\<lambda>c. the (base64_index c)) chars = sextets (map unat bs)" .
qed

lemma not_ends_with_padding:
  assumes "CHR ''='' \<notin> set xs"
  shows "\<not> ends_with ''='' xs" "\<not> ends_with ''=='' xs" "\<not> ends_with ''=='' (xs @ ''='')"
proof -
  show "\<not> ends_with ''='' xs"
  proof
    assume "ends_with ''='' xs"
    then have "drop (length xs - 1) xs = ''=''" by (simp add: ends_with_def)
    then have "CHR ''='' \<in> set (drop (length xs - 1) xs)" by simp
    with assms show False by (blast dest: in_set_dropD)
  qed
  show "\<not> ends_with ''=='' xs"
  proof
    assume "ends_with ''=='' xs"
    then have "drop (length xs - 2) xs = ''==''" by (simp add: ends_with_def numeral_2_eq_2)
    then have "CHR ''='' \<in> set (drop (length xs - 2) xs)" by simp
    with assms show False by (blast dest: in_set_dropD)
  qed
  show "\<not> ends_with ''=='' (xs @ ''='')"
  proof
    assume "ends_with ''=='' (xs @ ''='')"
    then have len: "1 \<le> length xs" and "drop (length xs - 1) (xs @ ''='') = ''==''"
      by (simp_all add: ends_with_def)
    then have "drop (length xs - 1) xs @ ''='' = ''==''" by simp
    then have "drop (length xs - 1) xs = ''=''" by simp
    then have "CHR ''='' \<in> set (drop (length xs - 1) xs)" by simp
    with assms show False by (blast dest: in_set_dropD)
  qed
qed

lemma atob_btoa: "atob (btoa bs) = Some bs"
proof -
  define chars where "chars = map (\<lambda>s. base64_alphabet ! s) (sextets (map unat bs))"
  define k where "k = (3 - length bs mod 3) mod 3"
  note chars = btoa_chars [of bs, folded chars_def]
  have btoa: "btoa bs = chars @ replicate k CHR ''=''"
    by (simp add: btoa_def chars_def k_def)
  have no_pad: "CHR ''='' \<notin> set chars"
    using chars(1) base64_alphabet_chars(1) by blast
  have "\<not> is_ascii_whitespace CHR ''=''" by (simp add: is_ascii_whitespace_def)
  moreover have "\<not> is_ascii_whitespace c" if "c \<in> set chars" for c
    using that chars(1) base64_alphabet_chars(4) by blast
  ultimately have clean: "filter (\<lambda>c. \<not> is_ascii_whitespace c) (chars @ replicate k CHR ''='')
      = chars @ replicate k CHR ''=''"
    by (auto simp: filter_id_conv)
  have len: "length (chars @ replicate k CHR ''='') mod 4 = 0"
    unfolding length_append length_replicate chars(2) k_def by (rule padded_length)
  have "k < 3" by (simp add: k_def)
  then consider "k = 0" | "k = 1" | "k = 2" by arith
  then have stripped:
    "(if ends_with ''=='' (chars @ replicate k CHR ''='')
      then take (length (chars @ replicate k CHR ''='') - 2) (chars @ replicate k CHR ''='')
      else if ends_with ''='' (chars @ replicate k CHR ''='')
      then take (length (chars @ replicate k CHR ''='') - 1) (chars @ replicate k CHR ''='')
      else chars @ replicate k CHR ''='') = chars"
  proof cases
    case 1
    with not_ends_with_padding(1,2) [OF no_pad] show ?thesis by simp
  next
    case 2
    have "ends_with ''='' (chars @ ''='')" by (simp add: ends_with_def)
    with 2 not_ends_with_padding(3) [OF no_pad] show ?thesis by simp
  next
    case 3
    have "ends_with ''=='' (chars @ ''=='')" by (simp add: ends_with_def)
    with 3 show ?thesis by (simp add: numeral_2_eq_2)
  qed
  have valid: "length chars mod 4 \<noteq> 1" "\<not> (\<exists>c \<in> set chars. base64_index c = None)"
  proof -
    show "length chars mod 4 \<noteq> 1" unfolding chars(2) by (rule body_length_mod)
    have "base64_index c \<noteq> None" if "c \<in> set chars" for c
    proof -
      from that chars(1) have "c \<in> set base64_alphabet" by blast
      then obtain s where "s < 64" "c = base64_alphabet ! s"
        by (auto simp: in_set_conv_nth length_base64_alphabet)
      then show ?thesis by (simp add: base64_index_nth)
    qed
    then show "\<not> (\<exists>c \<in> set chars. base64_index c = None)" by blast
  qed
  have bytes: "map of_nat (octets (map (\<lambda>c. the (base64_index c)) chars)) = bs"
  proof -
    have "octets (sextets (map unat bs)) = map unat bs"
      using byte_values by (rule octets_sextets)
    then show ?thesis by (simp add: chars(3) map_idI comp_def)
  qed
  show ?thesis
    unfolding atob_def btoa clean Let_def
    using len stripped valid bytes by simp
qed

lemma toBase64Url_chars:
  "toBase64Url bs = replace_char CHR ''/'' CHR ''_'' (replace_char CHR ''+'' CHR ''-''
     (map (\<lambda>s. base64_alphabet ! s) (sextets (map unat bs))))"
proof -
  define chars where "chars = map (\<lambda>s. base64_alphabet ! s) (sextets (map unat bs))"
  note chars = btoa_chars [of bs, folded chars_def]
  have "toBase64Url bs
      = strip_padding (replace_char CHR ''/'' CHR ''_'' (replace_char CHR ''+'' CHR ''-'' chars)
          @ replicate ((3 - length bs mod 3) mod 3) CHR ''='')"
    by (simp add: toBase64Url_def btoa_def chars_def replace_char_append replace_char_padding)
  also have "\<dots> = replace_char CHR ''/'' CHR ''_'' (replace_char CHR ''+'' CHR ''-'' chars)"
    using url_escape_no_padding [OF chars(1)] by (rule strip_padding_replicate)
  finally show ?thesis by (simp add: chars_def)
qed

lemma length_toBase64Url: "length (toBase64Url bs) = (4 * length bs + 2) div 3"
  by (simp add: toBase64Url_chars replace_char_def length_sextets)

lemma toBase64Url_empty: "toBase64Url bs = [] \<longleftrightarrow> bs = []"
proof -
  have "(4 * length bs + 2) div 3 = 0 \<longleftrightarrow> length bs = 0" by arith
  with length_toBase64Url [of bs] show ?thesis
    by (metis length_0_conv)
qed

text \<open>Decoding what \<^verbatim>\<open>toBase64Url\<close> wrote gives the bytes back.\<close>

lemma fromBase64Url_toBase64Url: "fromBase64Url (toBase64Url bs) = Some bs"
proof -
  define chars where "chars = map (\<lambda>s. base64_alphabet ! s) (sextets (map unat bs))"
  note chars = btoa_chars [of bs, folded chars_def]
  have escaped: "toBase64Url bs
      = replace_char CHR ''/'' CHR ''_'' (replace_char CHR ''+'' CHR ''-'' chars)"
    by (simp add: toBase64Url_chars chars_def)
  have unescaped: "replace_char CHR ''_'' CHR ''/'' (replace_char CHR ''-'' CHR ''+'' (toBase64Url bs))
      = chars"
    unfolding escaped using chars(1) by (rule url_escape_inverse)
  have pad: "(if length chars mod 4 \<noteq> 0 then 4 - length chars mod 4 else 0)
      = (3 - length bs mod 3) mod 3"
    unfolding chars(2) by (rule padding_length)
  have "fromBase64Url (toBase64Url bs)
      = atob (chars @ replicate ((3 - length bs mod 3) mod 3) CHR ''='')"
    unfolding fromBase64Url_def unescaped Let_def pad ..
  also have "\<dots> = atob (btoa bs)"
    by (simp add: btoa_def chars_def)
  also have "\<dots> = Some bs" by (rule atob_btoa)
  finally show ?thesis .
qed

section \<open>Encryption bound to associated data\<close>


text \<open>
  The associated data that \<^verbatim>\<open>decrypt\<close> reads back from the payload is the associated
  data that \<^verbatim>\<open>encrypt\<close> used, provided its bytes are not empty.
\<close>

lemma encodedAAD_of_encrypt:
  assumes "providedAAD P a \<noteq> Some []"
  shows "(if truthy (env_aad (encrypt P key iv_bytes data a))
          then map_option Some (fromBase64Url (the (env_aad (encrypt P key iv_bytes data a))))
          else Some None) = Some (providedAAD P a)"
proof (cases "providedAAD P a")
  case None
  then show ?thesis by (simp add: encrypt_def Let_def truthy_def)
next
  case (Some b)
  with assms have "b \<noteq> []" by simp
  then have "toBase64Url b \<noteq> []" by (simp add: toBase64Url_empty)
  with Some show ?thesis
    by (simp add: encrypt_def Let_def truthy_def fromBase64Url_toBase64Url)
qed


lemma decrypt_of_encrypt:
  assumes "providedAAD P a \<noteq> Some []"
  shows "decrypt P' key' (encrypt P key iv_bytes data a) a' =
     (if (providedAAD P' a' = None) \<noteq> (providedAAD P a = None) then Inl AadPresenceMismatch
      else if providedAAD P' a' \<noteq> providedAAD P a then Inl AadContextMismatch
      else
        (case aes_gcm_decrypt P' key' iv_bytes (providedAAD P' a')
                (aes_gcm_encrypt P key iv_bytes (providedAAD P a)
                   (TextEncoder_encode
                      (case data of Text s \<Rightarrow> s | Json obj \<Rightarrow> JSON_stringify P obj))) of
           None \<Rightarrow> Inl OperationError
         | Some pt \<Rightarrow>
             (case JSON_parse P' (TextDecoder_decode pt) of
                Some obj \<Rightarrow> Inr (Json obj)
              | None \<Rightarrow> Inr (Text (TextDecoder_decode pt)))))"
proof -
  let ?env = "encrypt P key iv_bytes data a"
  have fields: "alg ?env = ''AES-GCM''" "fromBase64Url (iv ?env) = Some iv_bytes"
    "fromBase64Url (ct ?env)
       = Some (aes_gcm_encrypt P key iv_bytes (providedAAD P a)
                (TextEncoder_encode
                   (case data of Text s \<Rightarrow> s | Json obj \<Rightarrow> JSON_stringify P obj)))"
    by (simp_all add: encrypt_def Let_def fromBase64Url_toBase64Url)
  note encoded = encodedAAD_of_encrypt [OF assms, of key iv_bytes data]
  show ?thesis
    unfolding decrypt_def fields encoded
    by (cases "providedAAD P' a'"; cases "providedAAD P a")
      (auto simp: equals_iff Let_def split: option.splits)
qed


lemma decrypt_encrypt_same:
  assumes "providedAAD P a \<noteq> Some []"
    and "aes_gcm_decrypt P key iv_bytes (providedAAD P a)
           (aes_gcm_encrypt P key iv_bytes (providedAAD P a)
              (TextEncoder_encode
                 (case data of Text s \<Rightarrow> s | Json obj \<Rightarrow> JSON_stringify P obj)))
         = Some (TextEncoder_encode
                   (case data of Text s \<Rightarrow> s | Json obj \<Rightarrow> JSON_stringify P obj))"
  shows "decrypt P key (encrypt P key iv_bytes data a) a =
     (case JSON_parse P (case data of Text s \<Rightarrow> s | Json obj \<Rightarrow> JSON_stringify P obj) of
        Some obj \<Rightarrow> Inr (Json obj)
      | None \<Rightarrow> Inr (Text (case data of Text s \<Rightarrow> s | Json obj \<Rightarrow> JSON_stringify P obj)))"
  by (simp add: decrypt_of_encrypt [OF assms(1)] assms(2) TextDecoder_TextEncoder
      cong: option.case_cong)

text \<open>
  A remark on string plaintexts: the decrypted text is handed to \<^verbatim>\<open>JSON.parse\<close>
  first, so a string that is itself JSON text comes back as the value it denotes.
\<close>

lemma string_plaintext_parsed:
  assumes "providedAAD P a \<noteq> Some []"
    and "aes_gcm_decrypt P key iv_bytes (providedAAD P a)
           (aes_gcm_encrypt P key iv_bytes (providedAAD P a) (TextEncoder_encode s))
         = Some (TextEncoder_encode s)"
    and "JSON_parse P s = Some obj"
  shows "decrypt P key (encrypt P key iv_bytes (Text s) a) a = Inr (Json obj)"
  using decrypt_encrypt_same [OF assms(1), of key iv_bytes "Text s"] assms(2,3) by simp








end
